theory Spec2Isabelle
  imports Main "HOL-Library.Sublist" "HOL-Library.AList"
begin

section \<open>Paths\<close>

text \<open>
  A \<^verbatim>\<open>pathlib.Path\<close>: absolute or relative, with its components. The model has no
  \<^verbatim>\<open>.\<close> or \<^verbatim>\<open>..\<close> components and no symbolic links.
\<close>

datatype path = Path (is_abs: bool) (parts: "string list")

text \<open>\<^verbatim>\<open>p / n\<close> for a single component \<open>n\<close>.\<close>

definition joinpath :: "path \<Rightarrow> string \<Rightarrow> path" where
  "joinpath p n = Path (is_abs p) (parts p @ [n])"

text \<open>\<^verbatim>\<open>p.name\<close>: the final component, the empty string when there is none.\<close>

definition name_of :: "path \<Rightarrow> string" where
  "name_of p = (if parts p = [] then [] else last (parts p))"

text \<open>\<^verbatim>\<open>s.rfind(c)\<close>, with \<open>None\<close> for Python's -1.\<close>

fun rfind :: "char \<Rightarrow> string \<Rightarrow> nat option" where
  "rfind c [] = None"
| "rfind c (x # xs) =
     (case rfind c xs of
        Some i \<Rightarrow> Some (Suc i)
      | None \<Rightarrow> if x = c then Some 0 else None)"

text \<open>
  \<^verbatim>\<open>p.stem\<close>: the name without its last suffix. pathlib cuts at the last dot \<open>i\<close> only
  when \<^verbatim>\<open>0 < i < len(name) - 1\<close>.
\<close>

definition stem_of_name :: "string \<Rightarrow> string" where
  "stem_of_name n =
     (case rfind CHR ''.'' n of
        None \<Rightarrow> n
      | Some i \<Rightarrow> if 0 < i \<and> Suc i < length n then take i n else n)"

definition stem :: "path \<Rightarrow> string" where
  "stem p = stem_of_name (name_of p)"

text \<open>\<^verbatim>\<open>fnmatch(name, "*" + sfx)\<close>, case-sensitive.\<close>

definition endswith :: "string \<Rightarrow> string \<Rightarrow> bool" where
  "endswith sfx s = (length sfx \<le> length s \<and> drop (length s - length sfx) s = sfx)"

section \<open>The filtering policy\<close>

text \<open>
  \<^verbatim>\<open>should_delete_file\<close> (lines 191-199). The dictionary \<^verbatim>\<open>file_sizes\<close> is mutated in
  place by the source; the model returns the decision together with the dictionary
  after the call. The decision is the source's pair \<^verbatim>\<open>(should_delete, reason)\<close>.
\<close>

type_synonym filter_state = "int \<rightharpoonup> string"

definition should_delete_file ::
  "path \<Rightarrow> int \<Rightarrow> bool \<Rightarrow> int \<Rightarrow> bool \<Rightarrow> filter_state
   \<Rightarrow> (bool \<times> string option) \<times> filter_state" where
  "should_delete_file output_file file_size delete_small min_file_size remove_duplicates file_sizes =
     (if delete_small \<and> file_size < min_file_size then ((True, Some ''small''), file_sizes)
      else if remove_duplicates \<and> file_sizes file_size \<noteq> None
        then ((True, Some ''duplicate''), file_sizes)
      else if remove_duplicates
        then ((False, None), file_sizes(file_size \<mapsto> name_of output_file))
      else ((False, None), file_sizes))"

section \<open>The file system and the external tools\<close>

text \<open>
  The state the program works on: the entries of the file system by absolute path, in
  the order a directory listing reports them, the paths the operating system refuses to
  remove or rename (read-only, or held open by another process), the process's working
  directory and the size the platform reports for a directory. The root \<open>[]\<close> is always
  a directory.
\<close>

datatype node = File nat | Dir

record fsys =
  entries :: "(string list \<times> node) list"
  locked :: "string list list"
  cwd :: "string list"
  dir_size :: nat

datatype error =
  FileNotFoundError | FileExistsError | NotADirectoryError | IsADirectoryError
  | PermissionError | SameFileError | ShutilError | OSError | UnicodeDecodeError

text \<open>The outcome of a call that may raise.\<close>

datatype 'a res = Ret 'a | Raise error

definition lookup :: "fsys \<Rightarrow> string list \<Rightarrow> node option" where
  "lookup fs ap = (if ap = [] then Some Dir else map_of (entries fs) ap)"

definition is_dir :: "fsys \<Rightarrow> string list \<Rightarrow> bool" where
  "is_dir fs ap = (lookup fs ap = Some Dir)"

text \<open>A relative path is read against the working directory of the moment.\<close>

definition resolve :: "fsys \<Rightarrow> path \<Rightarrow> string list" where
  "resolve fs p = (if is_abs p then parts p else cwd fs @ parts p)"

text \<open>\<^verbatim>\<open>Path.exists()\<close>.\<close>

definition path_exists :: "fsys \<Rightarrow> path \<Rightarrow> bool" where
  "path_exists fs p = (lookup fs (resolve fs p) \<noteq> None)"

definition put :: "string list \<Rightarrow> node \<Rightarrow> fsys \<Rightarrow> fsys" where
  "put ap n fs = fs\<lparr>entries := AList.update ap n (entries fs)\<rparr>"

definition remove_entry :: "string list \<Rightarrow> fsys \<Rightarrow> fsys" where
  "remove_entry ap fs = fs\<lparr>entries := filter (\<lambda>(q, n). q \<noteq> ap) (entries fs)\<rparr>"

definition remove_tree :: "string list \<Rightarrow> fsys \<Rightarrow> fsys" where
  "remove_tree ap fs = fs\<lparr>entries := filter (\<lambda>(q, n). \<not> prefix ap q) (entries fs)\<rparr>"

text \<open>Some existing entry at or below \<open>ap\<close> cannot be removed.\<close>

definition locked_below :: "fsys \<Rightarrow> string list \<Rightarrow> bool" where
  "locked_below fs ap = list_ex (\<lambda>q. prefix ap q \<and> lookup fs q \<noteq> None) (locked fs)"

text \<open>\<^verbatim>\<open>Path.mkdir(exist_ok=...)\<close>.\<close>

definition mkdir :: "fsys \<Rightarrow> path \<Rightarrow> bool \<Rightarrow> error + fsys" where
  "mkdir fs p exist_ok =
     (let ap = resolve fs p in
      case lookup fs ap of
        Some Dir \<Rightarrow> if exist_ok then Inr fs else Inl FileExistsError
      | Some (File n) \<Rightarrow> Inl FileExistsError
      | None \<Rightarrow> if is_dir fs (butlast ap) then Inr (put ap Dir fs) else Inl FileNotFoundError)"

text \<open>
  \<^verbatim>\<open>shutil.rmtree\<close>: raises when the path is not a directory or when an entry of the tree
  cannot be removed. The real call may have removed part of the tree before it raises
  (never the root of the tree); the model leaves the tree as it was.
\<close>

definition rmtree :: "fsys \<Rightarrow> path \<Rightarrow> error + fsys" where
  "rmtree fs p =
     (let ap = resolve fs p in
      case lookup fs ap of
        None \<Rightarrow> Inl FileNotFoundError
      | Some (File n) \<Rightarrow> Inl NotADirectoryError
      | Some Dir \<Rightarrow>
          if locked_below fs ap then Inl PermissionError else Inr (remove_tree ap fs))"

text \<open>\<^verbatim>\<open>Path.unlink()\<close>.\<close>

definition unlink :: "fsys \<Rightarrow> path \<Rightarrow> error + fsys" where
  "unlink fs p =
     (let ap = resolve fs p in
      case lookup fs ap of
        None \<Rightarrow> Inl FileNotFoundError
      | Some Dir \<Rightarrow> Inl IsADirectoryError
      | Some (File n) \<Rightarrow>
          if ap \<in> set (locked fs) then Inl PermissionError else Inr (remove_entry ap fs))"

text \<open>\<^verbatim>\<open>os.path.getsize\<close>.\<close>

definition getsize :: "fsys \<Rightarrow> path \<Rightarrow> error + int" where
  "getsize fs p =
     (case lookup fs (resolve fs p) of
        None \<Rightarrow> Inl FileNotFoundError
      | Some (File n) \<Rightarrow> Inr (int n)
      | Some Dir \<Rightarrow> Inr (int (dir_size fs)))"

text \<open>\<^verbatim>\<open>shutil.copy2(src, dst)\<close>: into \<open>dst\<close> when it is a directory, else onto it.\<close>

definition copy2 :: "fsys \<Rightarrow> path \<Rightarrow> path \<Rightarrow> error + fsys" where
  "copy2 fs src dst =
     (case lookup fs (resolve fs src) of
        None \<Rightarrow> Inl FileNotFoundError
      | Some Dir \<Rightarrow> Inl IsADirectoryError
      | Some (File n) \<Rightarrow>
          let d = resolve fs dst;
              target = (if is_dir fs d then d @ [name_of src] else d)
          in if target = resolve fs src then Inl SameFileError
             else if is_dir fs target then Inl IsADirectoryError
             else if \<not> is_dir fs (butlast target) then Inl FileNotFoundError
             else Inr (put target (File n) fs))"

text \<open>
  \<^verbatim>\<open>shutil.move(src, dst)\<close>. A file is renamed, and when the rename is refused it is
  copied and then unlinked, so a locked source file leaves its copy behind and raises.
  A directory is renamed with its tree; its copy-and-delete fall-back is not modelled
  (a refused rename of a directory raises and changes nothing).
\<close>

definition move :: "fsys \<Rightarrow> path \<Rightarrow> path \<Rightarrow> error option \<times> fsys" where
  "move fs src dst =
     (let s = resolve fs src;
          d = resolve fs dst;
          real_dst = (if is_dir fs d then d @ [name_of src] else d)
      in case lookup fs s of
           None \<Rightarrow> (Some FileNotFoundError, fs)
         | Some Dir \<Rightarrow>
             if s = [] \<or> lookup fs real_dst \<noteq> None \<or> prefix s real_dst
                \<or> \<not> is_dir fs (butlast real_dst) \<or> locked_below fs s
             then (Some ShutilError, fs)
             else (None, fs\<lparr>entries :=
                     map (\<lambda>(q, n). if prefix s q then (real_dst @ drop (length s) q, n) else (q, n))
                       (entries fs)\<rparr>)
         | Some (File n) \<Rightarrow>
             if is_dir fs d \<and> lookup fs real_dst \<noteq> None then (Some ShutilError, fs)
             else if \<not> is_dir fs (butlast real_dst) then (Some FileNotFoundError, fs)
             else if s \<in> set (locked fs) then (Some PermissionError, put real_dst (File n) fs)
             else (None, put real_dst (File n) (remove_entry s fs)))"

text \<open>\<^verbatim>\<open>os.chdir\<close>.\<close>

definition chdir :: "fsys \<Rightarrow> path \<Rightarrow> error + fsys" where
  "chdir fs p =
     (let ap = resolve fs p in
      if is_dir fs ap then Inr (fs\<lparr>cwd := ap\<rparr>) else Inl FileNotFoundError)"

text \<open>
  \<^verbatim>\<open>list(d.glob("*" + sfx))\<close>: the entries directly in \<open>d\<close> whose name ends with \<open>sfx\<close>,
  files and directories alike, in listing order, as paths under \<open>d\<close>.
\<close>

definition glob :: "fsys \<Rightarrow> path \<Rightarrow> string \<Rightarrow> path list" where
  "glob fs d sfx =
     (let ad = resolve fs d in
      if is_dir fs ad
      then map (\<lambda>(q, n). joinpath d (last q))
             (filter (\<lambda>(q, n). q \<noteq> [] \<and> butlast q = ad \<and> endswith sfx (last q)) (entries fs))
      else [])"

text \<open>
  The two external tools (section 6 of the specification). The command lines the source
  builds as strings are kept structured: the extractor with the archive's file name, the
  converter with \<^verbatim>\<open>-o output input\<close>. What a tool does is a parameter: whether the process
  could be launched and its exit code, the fragment files (name and size) the extractor
  writes into its working directory, the size of the output file the converter writes
  (if it writes one), and whether the bytes the child writes to its standard output and
  error streams decode as text. Each may depend on the file system the tool finds.
\<close>

datatype command = Extract_cmd string string | Convert_cmd string path path

datatype status = Launch_fault | Exited int

record env =
  exit_status :: "command \<Rightarrow> fsys \<Rightarrow> status"
  extracted :: "command \<Rightarrow> fsys \<Rightarrow> (string \<times> nat) list"
  converted :: "command \<Rightarrow> fsys \<Rightarrow> nat option"
  output_decodable :: "command \<Rightarrow> fsys \<Rightarrow> bool"

text \<open>A tool creates or overwrites a file, where the file system allows it.\<close>

definition write_file :: "string list \<Rightarrow> nat \<Rightarrow> fsys \<Rightarrow> fsys" where
  "write_file ap n fs =
     (if ap \<noteq> [] \<and> is_dir fs (butlast ap) \<and> \<not> is_dir fs ap then put ap (File n) fs else fs)"

text \<open>
  \<^verbatim>\<open>subprocess.run(cmd, shell=True, text=True)\<close>, with \<^verbatim>\<open>capture_output=True\<close> or without.
  The call raises when the process cannot be launched. Otherwise the child runs to its
  end and has its effects on the file system; then, when its output is captured, the
  output is decoded as text, and the call raises when it does not decode. Without capture
  the child writes to the console and nothing is decoded. A call that does not raise
  returns the child's exit code.
\<close>

definition subprocess_run :: "env \<Rightarrow> command \<Rightarrow> bool \<Rightarrow> fsys \<Rightarrow> int res \<times> fsys" where
  "subprocess_run env cmd capture_output fs =
     (case exit_status env cmd fs of
        Launch_fault \<Rightarrow> (Raise OSError, fs)
      | Exited rc \<Rightarrow>
          (if capture_output \<and> \<not> output_decodable env cmd fs then Raise UnicodeDecodeError
           else Ret rc,
           case cmd of
             Extract_cmd tool archive \<Rightarrow>
               fold (\<lambda>(f, n). write_file (cwd fs @ [f]) n) (extracted env cmd fs) fs
           | Convert_cmd tool out inp \<Rightarrow>
               (case converted env cmd fs of
                  None \<Rightarrow> fs
                | Some n \<Rightarrow> write_file (resolve fs out) n fs)))"

section \<open>Console output\<close>

text \<open>
  What the program shows to the operator, one event per \<^verbatim>\<open>print\<close>, spinner call or
  passed-through child output. The spinner's own thread only animates the message.
\<close>

datatype event =
  Spinner_start string
  | Spinner_stop
  | Child_output command
  | Error_running command error
  | Progress_count nat nat
  | Progress_file nat nat string
  | Deleting_msg "string option" string int
  | Failed_msg string
  | Newline
  | Cleaning_msg
  | Moving_msg
  | Banner string
  | Extract_failed_msg string
  | No_wem_msg string
  | Exception_msg string error

section \<open>The pipeline\<close>

text \<open>
  \<^verbatim>\<open>run_command\<close> (lines 52-63): at verbosity 3 the child's output goes to the console,
  at any other verbosity it is captured. Every exception of the call is caught and
  reported as \<^verbatim>\<open>False\<close>.
\<close>

definition run_command :: "env \<Rightarrow> command \<Rightarrow> int \<Rightarrow> fsys \<Rightarrow> bool \<times> fsys \<times> event list" where
  "run_command env cmd verbosity fs =
     (case subprocess_run env cmd (verbosity \<noteq> 3) fs of
        (Raise e, fs') \<Rightarrow> (False, fs', if verbosity > 1 then [Error_running cmd e] else [])
      | (Ret rc, fs') \<Rightarrow> (rc = 0, fs', if verbosity = 3 then [Child_output cmd] else []))"

text \<open>\<^verbatim>\<open>get_file_size\<close> (lines 65-70).\<close>

definition get_file_size :: "fsys \<Rightarrow> path \<Rightarrow> int" where
  "get_file_size fs filepath = (case getsize fs filepath of Inr n \<Rightarrow> n | Inl e \<Rightarrow> 0)"

text \<open>\<^verbatim>\<open>extract_bnk\<close> (lines 171-189).\<close>

definition extract_bnk ::
  "env \<Rightarrow> path \<Rightarrow> path \<Rightarrow> string \<Rightarrow> int \<Rightarrow> fsys \<Rightarrow> bool res \<times> fsys \<times> event list" where
  "extract_bnk env bnk_file temp_dir bnkextr_path verbosity fs =
     (let temp_bnk = joinpath temp_dir (name_of bnk_file);
          out0 = [Spinner_start (''[*] Extracting '' @ name_of bnk_file)];
          extract_cmd = Extract_cmd bnkextr_path (name_of bnk_file)
      in (case copy2 fs bnk_file temp_bnk of
            Inl e \<Rightarrow> (Raise e, fs, [])
          | Inr fs1 \<Rightarrow>
              (let original_dir = Path True (cwd fs1)
               in (case chdir fs1 temp_dir of
                     Inl e \<Rightarrow> (Raise e, fs1, out0)
                   | Inr fs2 \<Rightarrow>
                       (case run_command env extract_cmd verbosity fs2 of
                          (success, fs3, out1) \<Rightarrow>
                            (case (if path_exists fs3 temp_bnk then unlink fs3 temp_bnk
                                   else Inr fs3) of
                               Inl e \<Rightarrow> (Raise e, fs3, out0 @ out1)
                             | Inr fs4 \<Rightarrow>
                                 (case chdir fs4 original_dir of
                                    Inl e \<Rightarrow> (Raise e, fs4, out0 @ out1)
                                  | Inr fs5 \<Rightarrow>
                                      (Ret success, fs5, out0 @ out1 @ [Spinner_stop]))))))))"

text \<open>
  \<^verbatim>\<open>for count, x in enumerate(xs, start)\<close>, the body threading the loop's state.
\<close>

fun for_each :: "(nat \<Rightarrow> 'a \<Rightarrow> 's \<Rightarrow> 's) \<Rightarrow> nat \<Rightarrow> 'a list \<Rightarrow> 's \<Rightarrow> 's" where
  "for_each body count [] s = s"
| "for_each body count (x # xs) s = for_each body (Suc count) xs (body count x s)"

text \<open>
  What one iteration of the conversion loop computed: the values of \<^verbatim>\<open>convert_success\<close>
  and, after a successful conversion, of \<^verbatim>\<open>file_size\<close>, \<^verbatim>\<open>should_delete\<close> and \<^verbatim>\<open>reason\<close>.
\<close>

datatype outcome = Conversion_failed | Converted int bool "string option"

text \<open>
  The body of the loop of \<^verbatim>\<open>convert_wem_files\<close> (lines 214-239). Its state is the file
  system, \<^verbatim>\<open>file_sizes\<close>, the outcomes so far and the console output so far.
\<close>

definition convert_body ::
  "env \<Rightarrow> path \<Rightarrow> string \<Rightarrow> string \<Rightarrow> int \<Rightarrow> bool \<Rightarrow> int \<Rightarrow> bool \<Rightarrow> nat \<Rightarrow> nat \<Rightarrow> path
   \<Rightarrow> fsys \<times> filter_state \<times> (path \<times> outcome) list \<times> event list
   \<Rightarrow> fsys \<times> filter_state \<times> (path \<times> outcome) list \<times> event list" where
  "convert_body env output_dir ext vgmstream_path verbosity delete_small min_file_size
     remove_duplicates n_files count wem_file s =
     (case s of (fs, file_sizes, outcomes, out) \<Rightarrow>
      let output_file = joinpath output_dir (stem wem_file @ ''.'' @ ext);
          out1 = (if verbosity = 2 then [Progress_count count n_files]
                  else if verbosity = 3 then [Progress_file count n_files (name_of wem_file)]
                  else []);
          convert_cmd = Convert_cmd vgmstream_path output_file wem_file
      in case run_command env convert_cmd verbosity fs of (convert_success, fs1, out2) \<Rightarrow>
         if convert_success then
           (let file_size = get_file_size fs1 output_file
            in case should_delete_file output_file file_size delete_small min_file_size
                      remove_duplicates file_sizes of
                 ((should_delete, reason), file_sizes') \<Rightarrow>
                   if should_delete then
                     (case unlink fs1 output_file of Inl e \<Rightarrow> fs1 | Inr fs2 \<Rightarrow> fs2,
                      file_sizes',
                      outcomes @ [(wem_file, Converted file_size should_delete reason)],
                      out @ out1 @ out2 @
                        (if verbosity = 3
                         then [Deleting_msg reason (name_of output_file) file_size] else []))
                   else
                     (fs1, file_sizes',
                      outcomes @ [(wem_file, Converted file_size should_delete reason)],
                      out @ out1 @ out2))
         else
           (fs1, file_sizes, outcomes @ [(wem_file, Conversion_failed)],
            out @ out1 @ out2 @ (if verbosity = 3 then [Failed_msg (name_of wem_file)] else [])))"

text \<open>
  \<^verbatim>\<open>convert_wem_files\<close> (lines 201-247). Besides the source's boolean and the file system
  it leaves, the model returns the outcome of every iteration and the console output.
\<close>

definition convert_wem_files ::
  "env \<Rightarrow> path \<Rightarrow> path \<Rightarrow> string \<Rightarrow> string \<Rightarrow> int \<Rightarrow> bool \<Rightarrow> int \<Rightarrow> bool \<Rightarrow> fsys
   \<Rightarrow> bool \<times> fsys \<times> (path \<times> outcome) list \<times> event list" where
  "convert_wem_files env temp_dir output_dir ext vgmstream_path verbosity delete_small
     min_file_size remove_duplicates fs =
     (let wem_files = glob fs temp_dir ''.wem'' in
      if wem_files = [] then (False, fs, [], [])
      else
        let file_sizes = Map.empty;
            out0 = (if verbosity = 1 then [Spinner_start ''[*] Converting files''] else [])
        in case for_each
                  (convert_body env output_dir ext vgmstream_path verbosity delete_small
                     min_file_size remove_duplicates (length wem_files))
                  1 wem_files (fs, file_sizes, [], out0) of
             (fs', file_sizes', outcomes, out1) \<Rightarrow>
               (True, fs', outcomes,
                out1 @ (if verbosity = 2 then [Newline]
                        else if verbosity = 1 then [Spinner_stop] else [])))"

text \<open>\<^verbatim>\<open>cleanup_temp_dir\<close> (lines 249-265).\<close>

definition cleanup_temp_dir ::
  "path \<Rightarrow> path \<Rightarrow> bool \<Rightarrow> int \<Rightarrow> fsys \<Rightarrow> unit res \<times> fsys \<times> event list" where
  "cleanup_temp_dir temp_dir output_dir cleanup_wem verbosity fs =
     (if cleanup_wem then
        (let out0 = (if verbosity \<ge> 2 then [Cleaning_msg] else []) in
         if path_exists fs temp_dir then
           (case rmtree fs temp_dir of
              Inl e \<Rightarrow> (Raise e, fs, out0)
            | Inr fs1 \<Rightarrow> (Ret (), fs1, out0))
         else (Ret (), fs, out0))
      else
        (let out0 = (if verbosity \<ge> 2 then [Moving_msg] else []);
             fs1 = fold (\<lambda>wem_file fs'. snd (move fs' wem_file output_dir))
                     (glob fs temp_dir ''.wem'') fs
         in if path_exists fs1 temp_dir then
              (case rmtree fs1 temp_dir of
                 Inl e \<Rightarrow> (Raise e, fs1, out0)
               | Inr fs2 \<Rightarrow> (Ret (), fs2, out0))
            else (Ret (), fs1, out0)))"

text \<open>The workspace of an archive: \<^verbatim>\<open>Path(f"temp_{basename}")\<close> (line 275).\<close>

definition temp_dir_of :: "path \<Rightarrow> path" where
  "temp_dir_of bnk_file = Path False [''temp_'' @ stem bnk_file]"

text \<open>The body of the \<^verbatim>\<open>try\<close> statement of \<^verbatim>\<open>process_bnk_file\<close> (lines 284-293).\<close>

definition process_body ::
  "env \<Rightarrow> path \<Rightarrow> path \<Rightarrow> path \<Rightarrow> string \<Rightarrow> string \<Rightarrow> string \<Rightarrow> int \<Rightarrow> bool \<Rightarrow> bool \<Rightarrow> int
   \<Rightarrow> bool \<Rightarrow> fsys \<Rightarrow> bool res \<times> fsys \<times> event list" where
  "process_body env bnk_file temp_dir file_output_dir ext bnkextr_path vgmstream_path
     verbosity cleanup_wem delete_small min_file_size remove_duplicates fs =
     (case extract_bnk env bnk_file temp_dir bnkextr_path verbosity fs of
        (Raise e, fs1, out1) \<Rightarrow> (Raise e, fs1, out1)
      | (Ret extracted_ok, fs1, out1) \<Rightarrow>
          if \<not> extracted_ok then (Ret False, fs1, out1 @ [Extract_failed_msg (name_of bnk_file)])
          else
            (case convert_wem_files env temp_dir file_output_dir ext vgmstream_path verbosity
                    delete_small min_file_size remove_duplicates fs1 of
               (converted_ok, fs2, outcomes, out2) \<Rightarrow>
                 if \<not> converted_ok
                 then (Ret False, fs2, out1 @ out2 @ [No_wem_msg (name_of bnk_file)])
                 else
                   (case cleanup_temp_dir temp_dir file_output_dir cleanup_wem verbosity fs2 of
                      (Raise e, fs3, out3) \<Rightarrow> (Raise e, fs3, out1 @ out2 @ out3)
                    | (Ret u, fs3, out3) \<Rightarrow> (Ret True, fs3, out1 @ out2 @ out3))))"

text \<open>
  The \<^verbatim>\<open>finally\<close> clause of \<^verbatim>\<open>process_bnk_file\<close> (lines 299-304): a failing removal is
  swallowed.
\<close>

definition final_cleanup :: "path \<Rightarrow> fsys \<Rightarrow> fsys" where
  "final_cleanup temp_dir fs =
     (if path_exists fs temp_dir
      then (case rmtree fs temp_dir of Inl e \<Rightarrow> fs | Inr fs' \<Rightarrow> fs')
      else fs)"

text \<open>
  The start of \<^verbatim>\<open>process_bnk_file\<close> (lines 275-281): a stale workspace is removed, the
  workspace is made afresh and the output subdirectory is made unless it is there.
\<close>

definition make_dirs :: "path \<Rightarrow> path \<Rightarrow> fsys \<Rightarrow> unit res \<times> fsys" where
  "make_dirs temp_dir file_output_dir fs =
     (case (if path_exists fs temp_dir then rmtree fs temp_dir else Inr fs) of
        Inl e \<Rightarrow> (Raise e, fs)
      | Inr fs1 \<Rightarrow>
          (case mkdir fs1 temp_dir False of
             Inl e \<Rightarrow> (Raise e, fs1)
           | Inr fs2 \<Rightarrow>
               (case mkdir fs2 file_output_dir True of
                  Inl e \<Rightarrow> (Raise e, fs2)
                | Inr fs3 \<Rightarrow> (Ret (), fs3))))"

text \<open>
  \<^verbatim>\<open>process_bnk_file\<close> (lines 267-304). The directories are made before the \<^verbatim>\<open>try\<close>
  statement, so a fault there leaves the function as an exception; a fault inside the
  \<^verbatim>\<open>try\<close> statement is caught and reported as \<^verbatim>\<open>False\<close>.
\<close>

definition process_bnk_file ::
  "env \<Rightarrow> path \<Rightarrow> path \<Rightarrow> string \<Rightarrow> string \<Rightarrow> string \<Rightarrow> int \<Rightarrow> bool \<Rightarrow> bool \<Rightarrow> int \<Rightarrow> bool
   \<Rightarrow> fsys \<Rightarrow> bool res \<times> fsys \<times> event list" where
  "process_bnk_file env bnk_file output_base_dir ext bnkextr_path vgmstream_path verbosity
     cleanup_wem delete_small min_file_size remove_duplicates fs =
     (let basename = stem bnk_file;
          out0 = [Banner (name_of bnk_file)];
          temp_dir = temp_dir_of bnk_file;
          file_output_dir = joinpath output_base_dir basename
      in (case make_dirs temp_dir file_output_dir fs of
            (Raise e, fs1) \<Rightarrow> (Raise e, fs1, out0)
          | (Ret u, fs3) \<Rightarrow>
              (case process_body env bnk_file temp_dir file_output_dir ext bnkextr_path
                      vgmstream_path verbosity cleanup_wem delete_small min_file_size
                      remove_duplicates fs3 of
                 (Ret ok, fs4, out1) \<Rightarrow> (Ret ok, final_cleanup temp_dir fs4, out0 @ out1)
               | (Raise e, fs4, out1) \<Rightarrow>
                   (Ret False, final_cleanup temp_dir fs4,
                    out0 @ out1 @ [Spinner_stop, Exception_msg (name_of bnk_file) e]))))"


text \<open>
  A well-formed file system: every entry lies in a directory, and the working directory
  is a directory.
\<close>

definition wf_fsys :: "fsys \<Rightarrow> bool" where
  "wf_fsys fs =
     (list_all (\<lambda>(p, n). p \<noteq> [] \<and> is_dir fs (butlast p)) (entries fs) \<and> is_dir fs (cwd fs))"

text \<open>The state of the conversion loop without the console output.\<close>

definition core :: "fsys \<times> filter_state \<times> (path \<times> outcome) list \<times> event list
   \<Rightarrow> fsys \<times> filter_state \<times> (path \<times> outcome) list" where
  "core s = (case s of (fs, file_sizes, outcomes, out) \<Rightarrow> (fs, file_sizes, outcomes))"

section \<open>Example inputs\<close>

text \<open>
  A working directory \<^verbatim>\<open>/w\<close> with \<^verbatim>\<open>input/a.bnk\<close> and an \<^verbatim>\<open>output\<close> directory; the same after
  the extraction of three fragments; tools that succeed, the converter writing outputs of
  1000, 2000 and 1000 bytes; a converter that exits with success and writes nothing; and
  tools that exit with status 1.
\<close>

definition ex_fs :: fsys where
  "ex_fs = \<lparr>entries = [([''w''], Dir), ([''w'', ''input''], Dir),
                       ([''w'', ''input'', ''a.bnk''], File 100), ([''w'', ''output''], Dir)],
            locked = [], cwd = [''w''], dir_size = 4096\<rparr>"

definition ex_fs_extracted :: fsys where
  "ex_fs_extracted = \<lparr>entries = [([''w''], Dir), ([''w'', ''output''], Dir),
                       ([''w'', ''output'', ''a''], Dir), ([''w'', ''temp_a''], Dir),
                       ([''w'', ''temp_a'', ''1.wem''], File 10),
                       ([''w'', ''temp_a'', ''2.wem''], File 20),
                       ([''w'', ''temp_a'', ''3.wem''], File 30)],
            locked = [], cwd = [''w''], dir_size = 4096\<rparr>"

definition ex_env :: env where
  "ex_env = \<lparr>exit_status = (\<lambda>cmd fs. Exited 0),
             extracted = (\<lambda>cmd fs. [(''1.wem'', 10), (''2.wem'', 20), (''3.wem'', 30)]),
             converted = (\<lambda>cmd fs. case cmd of
                            Convert_cmd tool out inp \<Rightarrow>
                              if name_of inp = ''2.wem'' then Some 2000 else Some 1000
                          | Extract_cmd tool archive \<Rightarrow> None),
             output_decodable = (\<lambda>cmd fs. True)\<rparr>"

definition ex_env_silent :: env where
  "ex_env_silent = \<lparr>exit_status = (\<lambda>cmd fs. Exited 0),
             extracted = (\<lambda>cmd fs. [(''1.wem'', 10)]),
             converted = (\<lambda>cmd fs. None),
             output_decodable = (\<lambda>cmd fs. True)\<rparr>"

definition ex_env_failing :: env where
  "ex_env_failing = \<lparr>exit_status = (\<lambda>cmd fs. Exited 1),
             extracted = (\<lambda>cmd fs. []),
             converted = (\<lambda>cmd fs. None),
             output_decodable = (\<lambda>cmd fs. True)\<rparr>"




text \<open>An extractor that writes one fragment and then exits with status 1.\<close>

definition ex_env_partial :: env where
  "ex_env_partial = \<lparr>exit_status = (\<lambda>cmd fs. Exited 1),
             extracted = (\<lambda>cmd fs. [(''1.wem'', 10)]),
             converted = (\<lambda>cmd fs. None),
             output_decodable = (\<lambda>cmd fs. True)\<rparr>"

text \<open>
  The archive \<^verbatim>\<open>/w/input/a.bnk\<close> and the output base directory \<^verbatim>\<open>/w/output\<close>; the example
  file system once the workspace \<^verbatim>\<open>temp_a\<close> and the output subdirectory are made; and the
  example file system where the copy of the archive in the workspace, once it is there,
  cannot be deleted.
\<close>

definition ex_bnk :: path where
  "ex_bnk = Path True [''w'', ''input'', ''a.bnk'']"

definition ex_out :: path where
  "ex_out = Path True [''w'', ''output'']"

definition ex_fs_ready :: fsys where
  "ex_fs_ready = \<lparr>entries = [([''w''], Dir), ([''w'', ''input''], Dir),
                       ([''w'', ''input'', ''a.bnk''], File 100), ([''w'', ''output''], Dir),
                       ([''w'', ''temp_a''], Dir), ([''w'', ''output'', ''a''], Dir)],
            locked = [], cwd = [''w''], dir_size = 4096\<rparr>"

definition ex_fs_locked :: fsys where
  "ex_fs_locked = ex_fs\<lparr>locked := [[''w'', ''temp_a'', ''a.bnk'']]\<rparr>"

section \<open>Properties of the filtering policy\<close>

text \<open>
  C1. When small-file deletion is enabled and the size is strictly below the threshold,
  the decision is delete-as-small, whatever the duplicate flag and whatever sizes the
  filter state already holds; it is never delete-as-duplicate.
\<close>

theorem small_takes_precedence:
  "delete_small \<Longrightarrow> file_size < min_file_size \<Longrightarrow>
     fst (should_delete_file output_file file_size delete_small min_file_size
            remove_duplicates file_sizes) = (True, Some ''small'')
     \<and> fst (should_delete_file output_file file_size delete_small min_file_size
            remove_duplicates file_sizes) \<noteq> (True, Some ''duplicate'')"
  by (simp add: should_delete_file_def)

theorem small_takes_precedence_witness:
  "True \<and> (50::int) < 100
   \<and> fst (should_delete_file (Path False [''output'', ''a'', ''2.wav'']) 50 True 100 True
            [50 \<mapsto> ''1.wav'']) = (True, Some ''small'')
   \<and> fst (should_delete_file (Path False [''output'', ''a'', ''2.wav'']) 50 True 100 True
            [50 \<mapsto> ''1.wav'']) \<noteq> (True, Some ''duplicate'')"
  using small_takes_precedence [of True 50 100 "Path False [''output'', ''a'', ''2.wav'']" True
      "[50 \<mapsto> ''1.wav'']"]
  by simp

text \<open>
  C2. With duplicate removal enabled and small-file deletion disabled, the policy applied
  in turn to outputs of 1000, 2000 and 1000 bytes, from the empty filter state, decides
  keep, keep, delete-as-duplicate: for any three files and any threshold, and in a run
  of \<^verbatim>\<open>convert_wem_files\<close> over three fragments converted to these sizes.
\<close>

theorem duplicate_law:
  "(case should_delete_file f1 1000 False m True Map.empty of (d1, s1) \<Rightarrow>
    case should_delete_file f2 2000 False m True s1 of (d2, s2) \<Rightarrow>
    case should_delete_file f3 1000 False m True s2 of (d3, s3) \<Rightarrow> [d1, d2, d3])
   = [(False, None), (False, None), (True, Some ''duplicate'')]
   \<and> map snd (fst (snd (snd (convert_wem_files ex_env (Path False [''temp_a''])
         (Path True [''w'', ''output'', ''a'']) ''wav'' ''vgmstream-cli.exe'' 1 False 4844 True
         ex_fs_extracted))))
     = [Converted 1000 False None, Converted 2000 False None,
        Converted 1000 True (Some ''duplicate'')]"
proof
  show "(case should_delete_file f1 1000 False m True Map.empty of (d1, s1) \<Rightarrow>
    case should_delete_file f2 2000 False m True s1 of (d2, s2) \<Rightarrow>
    case should_delete_file f3 1000 False m True s2 of (d3, s3) \<Rightarrow> [d1, d2, d3])
   = [(False, None), (False, None), (True, Some ''duplicate'')]"
    by (simp add: should_delete_file_def)
  show "map snd (fst (snd (snd (convert_wem_files ex_env (Path False [''temp_a''])
         (Path True [''w'', ''output'', ''a'']) ''wav'' ''vgmstream-cli.exe'' 1 False 4844 True
         ex_fs_extracted))))
     = [Converted 1000 False None, Converted 2000 False None,
        Converted 1000 True (Some ''duplicate'')]"
    by code_simp
qed


text \<open>
  C3. The filter state changes only when duplicate removal is enabled and the decision
  is keep for a size not seen before, and then exactly that size is recorded; on both
  delete decisions and whenever duplicate removal is disabled it is returned unchanged.
\<close>

theorem filter_state_frame:
  "(snd (should_delete_file f sz ds m rd st) \<noteq> st \<longrightarrow>
      rd \<and> fst (should_delete_file f sz ds m rd st) = (False, None) \<and> st sz = None
      \<and> snd (should_delete_file f sz ds m rd st) = st(sz \<mapsto> name_of f))
   \<and> (fst (should_delete_file f sz ds m rd st) = (True, Some ''small'')
        \<or> fst (should_delete_file f sz ds m rd st) = (True, Some ''duplicate'')
        \<or> \<not> rd \<longrightarrow> snd (should_delete_file f sz ds m rd st) = st)"
  by (simp add: should_delete_file_def)


theorem filter_state_frame_witness:
  "snd (should_delete_file (Path False [''1.wav'']) 1000 False 0 True Map.empty) \<noteq> Map.empty
   \<and> fst (should_delete_file (Path False [''1.wav'']) 1000 False 0 True Map.empty) = (False, None)
   \<and> snd (should_delete_file (Path False [''1.wav'']) 1000 False 0 True Map.empty)
       = [1000 \<mapsto> name_of (Path False [''1.wav''])]
   \<and> fst (should_delete_file (Path False [''2.wav'']) 1000 False 0 True [1000 \<mapsto> ''1.wav''])
       = (True, Some ''duplicate'')
   \<and> snd (should_delete_file (Path False [''2.wav'']) 1000 False 0 True [1000 \<mapsto> ''1.wav''])
       = [1000 \<mapsto> ''1.wav'']"
proof -
  have a: "snd (should_delete_file (Path False [''1.wav'']) 1000 False 0 True Map.empty) \<noteq> Map.empty"
    unfolding should_delete_file_def by simp
  have b: "fst (should_delete_file (Path False [''2.wav'']) 1000 False 0 True [1000 \<mapsto> ''1.wav''])
       = (True, Some ''duplicate'')"
    unfolding should_delete_file_def by simp
  note f1 = filter_state_frame [of "Path False [''1.wav'']" 1000 False 0 True Map.empty]
  note f2 = filter_state_frame [of "Path False [''2.wav'']" 1000 False 0 True "[1000 \<mapsto> ''1.wav'']"]
  from f1 a have c: "fst (should_delete_file (Path False [''1.wav'']) 1000 False 0 True Map.empty) = (False, None)"
    and d: "snd (should_delete_file (Path False [''1.wav'']) 1000 False 0 True Map.empty)
       = [1000 \<mapsto> name_of (Path False [''1.wav''])]"
    by blast+
  from f2 b have e: "snd (should_delete_file (Path False [''2.wav'']) 1000 False 0 True [1000 \<mapsto> ''1.wav''])
       = [1000 \<mapsto> ''1.wav'']"
    by blast
  from a b c d e show ?thesis by blast
qed


section \<open>Properties of the conversion step\<close>

lemma run_command_ok:
  "fst (run_command env cmd v fs)
   = (exit_status env cmd fs = Exited 0 \<and> (v = 3 \<or> output_decodable env cmd fs))"
  by (auto simp: run_command_def subprocess_run_def split: status.splits)

lemma run_command_fs:
  "fst (snd (run_command env cmd v fs)) = snd (subprocess_run env cmd True fs)"
  by (auto simp: run_command_def subprocess_run_def split: status.splits)

lemma run_command_verbosity:
  "output_decodable env cmd fs \<Longrightarrow>
   fst (run_command env cmd v1 fs) = fst (run_command env cmd v2 fs)
   \<and> fst (snd (run_command env cmd v1 fs)) = fst (snd (run_command env cmd v2 fs))"
  by (simp add: run_command_ok run_command_fs)

lemma run_command_cases:
  assumes "output_decodable env cmd fs"
  obtains ok fs' out1 out2 where
    "run_command env cmd v1 fs = (ok, fs', out1)" "run_command env cmd v2 fs = (ok, fs', out2)"
proof -
  obtain ok fs' out1 where a: "run_command env cmd v1 fs = (ok, fs', out1)"
    by (cases "run_command env cmd v1 fs") auto
  obtain ok2 fs2 out2 where b: "run_command env cmd v2 fs = (ok2, fs2, out2)"
    by (cases "run_command env cmd v2 fs") auto
  from run_command_verbosity [OF assms, of v1 v2] a b have "ok2 = ok" "fs2 = fs'" by simp_all
  with a b that show thesis by blast
qed

lemma convert_body_verbosity:
  assumes "core s1 = core s2" and dec: "\<forall>cmd fs. output_decodable env cmd fs"
  shows "core (convert_body env output_dir ext vg v1 ds m rd n c wem s1)
       = core (convert_body env output_dir ext vg v2 ds m rd n c wem s2)"
proof -
  obtain fs sz log o1 o2 where s: "s1 = (fs, sz, log, o1)" "s2 = (fs, sz, log, o2)"
    using assms(1) by (cases s1; cases s2) (auto simp: core_def)
  define output_file where "output_file = joinpath output_dir (stem wem @ ''.'' @ ext)"
  from dec have "output_decodable env (Convert_cmd vg output_file wem) fs"
    by simp
  then obtain ok fs' out1 out2 where r:
    "run_command env (Convert_cmd vg output_file wem) v1 fs = (ok, fs', out1)"
    "run_command env (Convert_cmd vg output_file wem) v2 fs = (ok, fs', out2)"
    by (rule run_command_cases)
  obtain d rsn sz' where sd:
    "should_delete_file output_file (get_file_size fs' output_file) ds m rd sz = ((d, rsn), sz')"
    by (metis prod.collapse)
  have b1: "convert_body env output_dir ext vg v1 ds m rd n c wem s1 =
     (if ok then
        (if d then (case unlink fs' output_file of Inl e \<Rightarrow> fs' | Inr fs2 \<Rightarrow> fs2) else fs',
         sz', log @ [(wem, Converted (get_file_size fs' output_file) d rsn)],
         snd (snd (snd (convert_body env output_dir ext vg v1 ds m rd n c wem s1))))
      else (fs', sz, log @ [(wem, Conversion_failed)],
         snd (snd (snd (convert_body env output_dir ext vg v1 ds m rd n c wem s1)))))"
    unfolding s convert_body_def Let_def output_file_def [symmetric]
    by (simp add: r sd)
  have b2: "convert_body env output_dir ext vg v2 ds m rd n c wem s2 =
     (if ok then
        (if d then (case unlink fs' output_file of Inl e \<Rightarrow> fs' | Inr fs2 \<Rightarrow> fs2) else fs',
         sz', log @ [(wem, Converted (get_file_size fs' output_file) d rsn)],
         snd (snd (snd (convert_body env output_dir ext vg v2 ds m rd n c wem s2))))
      else (fs', sz, log @ [(wem, Conversion_failed)],
         snd (snd (snd (convert_body env output_dir ext vg v2 ds m rd n c wem s2)))))"
    unfolding s convert_body_def Let_def output_file_def [symmetric]
    by (simp add: r sd)
  show ?thesis
    by (subst b1, subst b2) (simp add: core_def)
qed

lemma for_each_verbosity:
  assumes dec: "\<forall>cmd fs. output_decodable env cmd fs"
  shows "core s1 = core s2 \<Longrightarrow>
   core (for_each (convert_body env output_dir ext vg v1 ds m rd n) c xs s1)
   = core (for_each (convert_body env output_dir ext vg v2 ds m rd n) c xs s2)"
proof (induction xs arbitrary: c s1 s2)
  case Nil
  then show ?case by simp
next
  case (Cons x xs)
  have "core (convert_body env output_dir ext vg v1 ds m rd n c x s1)
      = core (convert_body env output_dir ext vg v2 ds m rd n c x s2)"
    by (rule convert_body_verbosity) (rule Cons.prems, rule dec)
  from Cons.IH [OF this] show ?case by simp
qed

lemma verbosity_only_through_decoding:
  assumes dec: "\<forall>cmd fs. output_decodable env cmd fs"
  shows "(case convert_wem_files env temp_dir output_dir ext vg v1 ds m rd fs of
      (ok, fs', outcomes, out) \<Rightarrow> (ok, fs', outcomes))
   = (case convert_wem_files env temp_dir output_dir ext vg v2 ds m rd fs of
      (ok, fs', outcomes, out) \<Rightarrow> (ok, fs', outcomes))"
proof -
  define xs where "xs = glob fs temp_dir ''.wem''"
  define i1 where "i1 = (fs, (Map.empty :: filter_state), ([] :: (path \<times> outcome) list),
     if v1 = 1 then [Spinner_start ''[*] Converting files''] else [])"
  define i2 where "i2 = (fs, (Map.empty :: filter_state), ([] :: (path \<times> outcome) list),
     if v2 = 1 then [Spinner_start ''[*] Converting files''] else [])"
  define r1 where "r1 = for_each (convert_body env output_dir ext vg v1 ds m rd (length xs)) 1 xs i1"
  define r2 where "r2 = for_each (convert_body env output_dir ext vg v2 ds m rd (length xs)) 1 xs i2"
  have "core i1 = core i2"
    by (simp add: core_def i1_def i2_def)
  then have c: "core r1 = core r2"
    unfolding r1_def r2_def by (rule for_each_verbosity [OF dec])
  obtain fa sa la oa where r1: "r1 = (fa, sa, la, oa)"
    by (cases r1) auto
  obtain fb sb lb ob where r2: "r2 = (fb, sb, lb, ob)"
    by (cases r2) auto
  from c have e: "fa = fb" "la = lb"
    by (simp_all add: core_def r1 r2)
  have w1: "convert_wem_files env temp_dir output_dir ext vg v1 ds m rd fs =
      (if xs = [] then (False, fs, [], [])
       else (True, fa, la, oa @ (if v1 = 2 then [Newline] else if v1 = 1 then [Spinner_stop] else [])))"
    using r1 by (simp add: convert_wem_files_def Let_def xs_def r1_def i1_def)
  have w2: "convert_wem_files env temp_dir output_dir ext vg v2 ds m rd fs =
      (if xs = [] then (False, fs, [], [])
       else (True, fb, lb, ob @ (if v2 = 2 then [Newline] else if v2 = 1 then [Spinner_stop] else [])))"
    using r2 by (simp add: convert_wem_files_def Let_def xs_def r2_def i2_def)
  show ?thesis
    unfolding w1 w2 e by (cases "xs = []") simp_all
qed

lemma convert_body_unfold:
  assumes r: "run_command env (Convert_cmd vg (joinpath od (stem wem @ ''.'' @ ext)) wem) v fs
              = (ok, fs1, out2)"
    and sd: "should_delete_file (joinpath od (stem wem @ ''.'' @ ext))
               (get_file_size fs1 (joinpath od (stem wem @ ''.'' @ ext))) ds m rd sz
             = ((d, rsn), sz')"
  shows "fst (snd (snd (convert_body env od ext vg v ds m rd n c wem (fs, sz, log, out))))
         = log @ [(wem, if ok then Converted (get_file_size fs1 (joinpath od (stem wem @ ''.'' @ ext))) d rsn
                        else Conversion_failed)]"
proof -
  define output_file where "output_file = joinpath od (stem wem @ ''.'' @ ext)"
  show ?thesis
    using r sd unfolding convert_body_def Let_def output_file_def [symmetric]
    by simp
qed



lemma convert_wem_files_unfold:
  "convert_wem_files env t od ext vg v ds m rd fs =
     (if glob fs t ''.wem'' = [] then (False, fs, [], [])
      else
        (True,
         fst (for_each (convert_body env od ext vg v ds m rd (length (glob fs t ''.wem''))) 1
                (glob fs t ''.wem'')
                (fs, Map.empty, [], if v = 1 then [Spinner_start ''[*] Converting files''] else [])),
         fst (snd (snd (for_each (convert_body env od ext vg v ds m rd (length (glob fs t ''.wem''))) 1
                (glob fs t ''.wem'')
                (fs, Map.empty, [], if v = 1 then [Spinner_start ''[*] Converting files''] else [])))),
         snd (snd (snd (for_each (convert_body env od ext vg v ds m rd (length (glob fs t ''.wem''))) 1
                (glob fs t ''.wem'')
                (fs, Map.empty, [], if v = 1 then [Spinner_start ''[*] Converting files''] else []))))
           @ (if v = 2 then [Newline] else if v = 1 then [Spinner_stop] else [])))"
  by (simp add: convert_wem_files_def Let_def split: prod.splits)

lemma get_file_size_unreadable:
  "getsize fs p = Inl e \<Longrightarrow> get_file_size fs p = 0"
  by (simp add: get_file_size_def)

lemma getsize_missing:
  "\<not> path_exists fs p \<Longrightarrow> getsize fs p = Inl FileNotFoundError"
  by (simp add: getsize_def path_exists_def)





text \<open>
  C10. \<^verbatim>\<open>get_file_size\<close> reports 0 for a path whose size cannot be read. When the
  converter reports success and its output file does not exist, the iteration treats the
  output as a 0-byte file: the outcome is a conversion with size 0 and the policy's
  decision for size 0, which is delete-as-small when small-file deletion is enabled with
  a positive threshold; it is not a conversion failure.
\<close>

theorem unreadable_size_is_zero:
  "(getsize fs1 p = Inl e \<longrightarrow> get_file_size fs1 p = 0)
   \<and> (run_command env (Convert_cmd vg (joinpath od (stem wem @ ''.'' @ ext)) wem) v fs
         = (True, fs1, out2)
       \<longrightarrow> \<not> path_exists fs1 (joinpath od (stem wem @ ''.'' @ ext))
       \<longrightarrow> fst (snd (snd (convert_body env od ext vg v ds m rd n c wem (fs, sz, log, out))))
           = log @ [(wem, Converted 0
               (fst (fst (should_delete_file (joinpath od (stem wem @ ''.'' @ ext)) 0 ds m rd sz)))
               (snd (fst (should_delete_file (joinpath od (stem wem @ ''.'' @ ext)) 0 ds m rd sz))))]
         \<and> (ds \<and> 0 < m \<longrightarrow>
              fst (snd (snd (convert_body env od ext vg v ds m rd n c wem (fs, sz, log, out))))
              = log @ [(wem, Converted 0 True (Some ''small''))]))"
proof (intro conjI impI)
  assume "getsize fs1 p = Inl e"
  then show "get_file_size fs1 p = 0"
    by (rule get_file_size_unreadable)
next
  define output_file where "output_file = joinpath od (stem wem @ ''.'' @ ext)"
  assume r: "run_command env (Convert_cmd vg (joinpath od (stem wem @ ''.'' @ ext)) wem) v fs
         = (True, fs1, out2)"
    and ne: "\<not> path_exists fs1 (joinpath od (stem wem @ ''.'' @ ext))"
  have z: "get_file_size fs1 (joinpath od (stem wem @ ''.'' @ ext)) = 0"
    using ne by (simp add: get_file_size_unreadable getsize_missing)
  obtain d rsn sz' where sd:
    "should_delete_file (joinpath od (stem wem @ ''.'' @ ext))
       (get_file_size fs1 (joinpath od (stem wem @ ''.'' @ ext))) ds m rd sz = ((d, rsn), sz')"
    by (metis prod.collapse)
  from convert_body_unfold [OF r sd]
  show g: "fst (snd (snd (convert_body env od ext vg v ds m rd n c wem (fs, sz, log, out))))
           = log @ [(wem, Converted 0
               (fst (fst (should_delete_file (joinpath od (stem wem @ ''.'' @ ext)) 0 ds m rd sz)))
               (snd (fst (should_delete_file (joinpath od (stem wem @ ''.'' @ ext)) 0 ds m rd sz))))]"
    using sd z by simp
  assume "ds \<and> 0 < m"
  then show "fst (snd (snd (convert_body env od ext vg v ds m rd n c wem (fs, sz, log, out))))
              = log @ [(wem, Converted 0 True (Some ''small''))]"
    unfolding g by (simp add: should_delete_file_def)
qed

theorem unreadable_size_is_zero_witness:
  "getsize ex_fs_extracted (Path True [''w'', ''output'', ''a'', ''1.wav'']) = Inl FileNotFoundError
   \<and> get_file_size ex_fs_extracted (Path True [''w'', ''output'', ''a'', ''1.wav'']) = 0
   \<and> run_command ex_env_silent
        (Convert_cmd ''vgmstream-cli.exe''
           (joinpath (Path True [''w'', ''output'', ''a''])
              (stem (Path False [''temp_a'', ''1.wem'']) @ ''.'' @ ''wav''))
           (Path False [''temp_a'', ''1.wem''])) 1 ex_fs_extracted
       = (True, ex_fs_extracted, [])
   \<and> \<not> path_exists ex_fs_extracted
        (joinpath (Path True [''w'', ''output'', ''a''])
           (stem (Path False [''temp_a'', ''1.wem'']) @ ''.'' @ ''wav''))
   \<and> True \<and> (0::int) < 4844
   \<and> fst (snd (snd (convert_body ex_env_silent (Path True [''w'', ''output'', ''a'']) ''wav''
        ''vgmstream-cli.exe'' 1 True 4844 False 1 1 (Path False [''temp_a'', ''1.wem''])
        (ex_fs_extracted, Map.empty, [], []))))
       = [(Path False [''temp_a'', ''1.wem''], Converted 0 True (Some ''small''))]"
proof -
  have a: "getsize ex_fs_extracted (Path True [''w'', ''output'', ''a'', ''1.wav'']) = Inl FileNotFoundError"
    by code_simp
  have r: "run_command ex_env_silent
        (Convert_cmd ''vgmstream-cli.exe''
           (joinpath (Path True [''w'', ''output'', ''a''])
              (stem (Path False [''temp_a'', ''1.wem'']) @ ''.'' @ ''wav''))
           (Path False [''temp_a'', ''1.wem''])) 1 ex_fs_extracted
       = (True, ex_fs_extracted, [])"
    by code_simp
  have ne: "\<not> path_exists ex_fs_extracted
        (joinpath (Path True [''w'', ''output'', ''a''])
           (stem (Path False [''temp_a'', ''1.wem'']) @ ''.'' @ ''wav''))"
    by code_simp
  note t = unreadable_size_is_zero [of ex_fs_extracted "Path True [''w'', ''output'', ''a'', ''1.wav'']"
      FileNotFoundError ex_env_silent "''vgmstream-cli.exe''" "Path True [''w'', ''output'', ''a'']"
      "Path False [''temp_a'', ''1.wem'']" "''wav''" 1 ex_fs_extracted "[]" True 4844 False 1 1
      Map.empty "[]" "[]"]
  from t a have b: "get_file_size ex_fs_extracted (Path True [''w'', ''output'', ''a'', ''1.wav'']) = 0"
    by blast
  have m: "True \<and> (0::int) < 4844"
    by simp
  from t r ne m have "fst (snd (snd (convert_body ex_env_silent (Path True [''w'', ''output'', ''a'']) ''wav''
        ''vgmstream-cli.exe'' 1 True 4844 False 1 1 (Path False [''temp_a'', ''1.wem''])
        (ex_fs_extracted, Map.empty, [], []))))
       = [] @ [(Path False [''temp_a'', ''1.wem''], Converted 0 True (Some ''small''))]"
    by blast
  then have c: "fst (snd (snd (convert_body ex_env_silent (Path True [''w'', ''output'', ''a'']) ''wav''
        ''vgmstream-cli.exe'' 1 True 4844 False 1 1 (Path False [''temp_a'', ''1.wem''])
        (ex_fs_extracted, Map.empty, [], []))))
       = [(Path False [''temp_a'', ''1.wem''], Converted 0 True (Some ''small''))]"
    by simp
  from a b r ne c show ?thesis by simp
qed


section \<open>Properties of the file system operations\<close>

lemma map_of_filter_key:
  "map_of (filter (\<lambda>(q, n). P q) es) p = (if P p then map_of es p else None)"
  by (induction es) auto

lemma lookup_root: "lookup fs [] = Some Dir"
  by (simp add: lookup_def)

lemma lookup_put:
  "lookup (put ap n fs) p = (if p = [] then Some Dir else if p = ap then Some n else lookup fs p)"
  by (simp add: lookup_def put_def update_conv')

lemma lookup_remove_tree:
  "lookup (remove_tree ap fs) p = (if p \<noteq> [] \<and> prefix ap p then None else lookup fs p)"
  by (simp add: lookup_def remove_tree_def map_of_filter_key)

lemma lookup_remove_entry:
  "lookup (remove_entry ap fs) p = (if p \<noteq> [] \<and> p = ap then None else lookup fs p)"
  by (simp add: lookup_def remove_entry_def map_of_filter_key)

lemma lookup_cwd_update: "lookup (fs\<lparr>cwd := c\<rparr>) p = lookup fs p"
  by (simp add: lookup_def)

lemma put_fields: "cwd (put ap n fs) = cwd fs" "locked (put ap n fs) = locked fs"
  by (simp_all add: put_def)

lemma remove_tree_fields: "cwd (remove_tree ap fs) = cwd fs" "locked (remove_tree ap fs) = locked fs"
  by (simp_all add: remove_tree_def)

lemma remove_entry_fields: "cwd (remove_entry ap fs) = cwd fs" "locked (remove_entry ap fs) = locked fs"
  by (simp_all add: remove_entry_def)

lemma resolve_rel: "resolve fs (Path False ps) = cwd fs @ ps"
  by (simp add: resolve_def)

lemma resolve_abs: "resolve fs (Path True ps) = ps"
  by (simp add: resolve_def)

lemma resolve_joinpath: "resolve fs (joinpath p n) = resolve fs p @ [n]"
  by (simp add: resolve_def joinpath_def)

lemma mkdir_cases:
  assumes "mkdir fs p e = Inr fs'"
  shows "(fs' = fs \<and> is_dir fs (resolve fs p))
       \<or> (fs' = put (resolve fs p) Dir fs \<and> lookup fs (resolve fs p) = None
           \<and> is_dir fs (butlast (resolve fs p)))"
  using assms
  by (auto simp: mkdir_def Let_def is_dir_def split: option.splits node.splits if_splits)

lemma rmtree_cases:
  assumes "rmtree fs p = Inr fs'"
  shows "fs' = remove_tree (resolve fs p) fs \<and> is_dir fs (resolve fs p)
         \<and> \<not> locked_below fs (resolve fs p)"
  using assms
  by (auto simp: rmtree_def Let_def is_dir_def split: option.splits node.splits if_splits)

lemma rmtree_fails:
  assumes "rmtree fs p = Inl e"
  shows "\<not> is_dir fs (resolve fs p) \<or> locked_below fs (resolve fs p)"
  using assms
  by (auto simp: rmtree_def Let_def is_dir_def split: option.splits node.splits if_splits)

lemma unlink_cases:
  assumes "unlink fs p = Inr fs'"
  shows "fs' = remove_entry (resolve fs p) fs"
  using assms
  by (auto simp: unlink_def Let_def split: option.splits node.splits if_splits)

lemma copy2_cases:
  assumes "copy2 fs src dst = Inr fs'"
  shows "\<exists>n. fs' = put (if is_dir fs (resolve fs dst) then resolve fs dst @ [name_of src]
                          else resolve fs dst) (File n) fs
           \<and> is_dir fs (butlast (if is_dir fs (resolve fs dst) then resolve fs dst @ [name_of src]
                          else resolve fs dst))"
  using assms
  by (auto simp: copy2_def Let_def split: option.splits node.splits if_splits)

lemma chdir_cases:
  assumes "chdir fs p = Inr fs'"
  shows "fs' = fs\<lparr>cwd := resolve fs p\<rparr> \<and> is_dir fs (resolve fs p)"
  using assms
  by (auto simp: chdir_def Let_def split: if_splits)

lemma chdir_fails:
  assumes "chdir fs p = Inl e"
  shows "\<not> is_dir fs (resolve fs p)"
  using assms
  by (auto simp: chdir_def Let_def split: if_splits)

lemma write_file_cases:
  "write_file ap n fs = fs \<or> (write_file ap n fs = put ap (File n) fs \<and> ap \<noteq> [] \<and> is_dir fs (butlast ap) \<and> \<not> is_dir fs ap)"
  by (simp add: write_file_def)

lemma write_file_fields: "cwd (write_file ap n fs) = cwd fs" "locked (write_file ap n fs) = locked fs"
  by (simp_all add: write_file_def put_fields)

lemma lookup_write_file_other: "q \<noteq> ap \<Longrightarrow> lookup (write_file ap n fs) q = lookup fs q"
  by (auto simp: write_file_def lookup_put lookup_root)

section \<open>Effects of the external tools\<close>

lemma is_dir_write_file: "is_dir (write_file ap n fs) q = is_dir fs q"
  by (auto simp: write_file_def is_dir_def lookup_put lookup_root)

lemma fold_write_file_fields:
  "cwd (fold (\<lambda>(f, n). write_file (c @ [f]) n) xs fs) = cwd fs
   \<and> locked (fold (\<lambda>(f, n). write_file (c @ [f]) n) xs fs) = locked fs"
proof (induction xs arbitrary: fs)
  case Nil
  show ?case by simp
next
  case (Cons x xs)
  obtain f n where x: "x = (f, n)" by (cases x)
  show ?case
    using Cons [of "write_file (c @ [f]) n fs"] by (simp add: x write_file_fields)
qed

lemma fold_write_file_is_dir:
  "is_dir (fold (\<lambda>(f, n). write_file (c @ [f]) n) xs fs) q = is_dir fs q"
proof (induction xs arbitrary: fs)
  case Nil
  show ?case by simp
next
  case (Cons x xs)
  obtain f n where x: "x = (f, n)" by (cases x)
  show ?case
    using Cons [of "write_file (c @ [f]) n fs"] by (simp add: x is_dir_write_file)
qed

lemma fold_write_file_lookup:
  "length q \<noteq> Suc (length c) \<or> \<not> prefix c q \<Longrightarrow>
   lookup (fold (\<lambda>(f, n). write_file (c @ [f]) n) xs fs) q = lookup fs q"
proof (induction xs arbitrary: fs)
  case Nil
  show ?case by simp
next
  case (Cons x xs)
  obtain f n where x: "x = (f, n)" by (cases x)
  have "q \<noteq> c @ [f]" using Cons.prems by auto
  then show ?case
    using Cons.IH [of "write_file (c @ [f]) n fs"] Cons.prems
    by (simp add: x lookup_write_file_other)
qed

lemma subprocess_run_fields:
  "cwd (snd (subprocess_run env cmd cap fs)) = cwd fs
   \<and> locked (snd (subprocess_run env cmd cap fs)) = locked fs"
  by (auto simp: subprocess_run_def fold_write_file_fields write_file_fields
      split: status.splits command.splits option.splits)

lemma subprocess_run_is_dir:
  "is_dir (snd (subprocess_run env cmd cap fs)) q = is_dir fs q"
  by (auto simp: subprocess_run_def fold_write_file_is_dir is_dir_write_file
      split: status.splits command.splits option.splits)

lemma subprocess_run_extract_lookup:
  "length q \<noteq> Suc (length (cwd fs)) \<or> \<not> prefix (cwd fs) q \<Longrightarrow>
   lookup (snd (subprocess_run env (Extract_cmd tool archive) cap fs)) q = lookup fs q"
  by (auto simp: subprocess_run_def fold_write_file_lookup split: status.splits)

lemma subprocess_run_convert_lookup:
  "q \<noteq> resolve fs out \<Longrightarrow>
   lookup (snd (subprocess_run env (Convert_cmd tool out inp) cap fs)) q = lookup fs q"
  by (auto simp: subprocess_run_def lookup_write_file_other split: status.splits option.splits)

lemma run_command_fields:
  "run_command env cmd v fs = (ok, fs', out) \<Longrightarrow> cwd fs' = cwd fs \<and> locked fs' = locked fs"
  using run_command_fs [of env cmd v fs] subprocess_run_fields [of env cmd True fs] by simp

lemma run_command_is_dir:
  "run_command env cmd v fs = (ok, fs', out) \<Longrightarrow> is_dir fs' q = is_dir fs q"
  using run_command_fs [of env cmd v fs] subprocess_run_is_dir [of env cmd True fs q] by simp

lemma run_command_extract_lookup:
  "run_command env (Extract_cmd tool archive) v fs = (ok, fs', out) \<Longrightarrow>
   length q \<noteq> Suc (length (cwd fs)) \<or> \<not> prefix (cwd fs) q \<Longrightarrow> lookup fs' q = lookup fs q"
  using run_command_fs [of env "Extract_cmd tool archive" v fs]
    subprocess_run_extract_lookup [of q fs env tool archive True] by simp

lemma run_command_convert_lookup:
  "run_command env (Convert_cmd tool out inp) v fs = (ok, fs', out') \<Longrightarrow>
   q \<noteq> resolve fs out \<Longrightarrow> lookup fs' q = lookup fs q"
  using run_command_fs [of env "Convert_cmd tool out inp" v fs]
    subprocess_run_convert_lookup [of q fs out env tool inp True] by simp

lemma extract_bnk_copy_fault:
  "copy2 fs bnk (joinpath temp_dir (name_of bnk)) = Inl e \<Longrightarrow>
   extract_bnk env bnk temp_dir bp v fs = (Raise e, fs, [])"
  by (simp add: extract_bnk_def Let_def)

lemma extract_bnk_chdir_fault:
  "copy2 fs bnk (joinpath temp_dir (name_of bnk)) = Inr fs1 \<Longrightarrow> chdir fs1 temp_dir = Inl e \<Longrightarrow>
   fst (extract_bnk env bnk temp_dir bp v fs) = Raise e
   \<and> fst (snd (extract_bnk env bnk temp_dir bp v fs)) = fs1"
  by (simp add: extract_bnk_def Let_def)

lemma extract_bnk_unlink_fault:
  "copy2 fs bnk (joinpath temp_dir (name_of bnk)) = Inr fs1 \<Longrightarrow> chdir fs1 temp_dir = Inr fs2 \<Longrightarrow>
   run_command env (Extract_cmd bp (name_of bnk)) v fs2 = (success, fs3, out1) \<Longrightarrow>
   (if path_exists fs3 (joinpath temp_dir (name_of bnk))
    then unlink fs3 (joinpath temp_dir (name_of bnk)) else Inr fs3) = Inl e \<Longrightarrow>
   fst (extract_bnk env bnk temp_dir bp v fs) = Raise e
   \<and> fst (snd (extract_bnk env bnk temp_dir bp v fs)) = fs3"
  by (simp add: extract_bnk_def Let_def)

lemma extract_bnk_chdir_back_fault:
  "copy2 fs bnk (joinpath temp_dir (name_of bnk)) = Inr fs1 \<Longrightarrow> chdir fs1 temp_dir = Inr fs2 \<Longrightarrow>
   run_command env (Extract_cmd bp (name_of bnk)) v fs2 = (success, fs3, out1) \<Longrightarrow>
   (if path_exists fs3 (joinpath temp_dir (name_of bnk))
    then unlink fs3 (joinpath temp_dir (name_of bnk)) else Inr fs3) = Inr fs4 \<Longrightarrow>
   chdir fs4 (Path True (cwd fs1)) = Inl e \<Longrightarrow>
   fst (extract_bnk env bnk temp_dir bp v fs) = Raise e
   \<and> fst (snd (extract_bnk env bnk temp_dir bp v fs)) = fs4"
  by (simp add: extract_bnk_def Let_def)

lemma extract_bnk_returns:
  "copy2 fs bnk (joinpath temp_dir (name_of bnk)) = Inr fs1 \<Longrightarrow> chdir fs1 temp_dir = Inr fs2 \<Longrightarrow>
   run_command env (Extract_cmd bp (name_of bnk)) v fs2 = (success, fs3, out1) \<Longrightarrow>
   (if path_exists fs3 (joinpath temp_dir (name_of bnk))
    then unlink fs3 (joinpath temp_dir (name_of bnk)) else Inr fs3) = Inr fs4 \<Longrightarrow>
   chdir fs4 (Path True (cwd fs1)) = Inr fs5 \<Longrightarrow>
   fst (extract_bnk env bnk temp_dir bp v fs) = Ret success
   \<and> fst (snd (extract_bnk env bnk temp_dir bp v fs)) = fs5"
  by (simp add: extract_bnk_def Let_def)

section \<open>Properties of the extraction step\<close>

lemma extract_bnk_props:
  assumes ex: "extract_bnk env bnk (Path False [t]) bp v fs = (r, fs', out)"
  shows "locked fs' = locked fs
    \<and> (cwd fs' = cwd fs \<or> cwd fs' = cwd fs @ [t])
    \<and> (\<forall>q. \<not> prefix (cwd fs @ [t]) q \<longrightarrow> lookup fs' q = lookup fs q)
    \<and> (\<forall>ok. r = Ret ok \<longrightarrow> cwd fs' = cwd fs)
    \<and> ((\<forall>q. lookup fs (cwd fs @ [t, t] @ q) = None) \<longrightarrow> is_dir fs (cwd fs) \<longrightarrow> cwd fs' = cwd fs)
    \<and> (is_dir fs (cwd fs @ [t]) \<longrightarrow> is_dir fs' (cwd fs @ [t]))"
proof (cases "copy2 fs bnk (joinpath (Path False [t]) (name_of bnk))")
  case (Inl e)
  from extract_bnk_copy_fault [OF this, of env bp v] ex have "r = Raise e" "fs' = fs"
    by simp_all
  then show ?thesis by simp
next
  case c: (Inr fs1)
  define nm where "nm = name_of bnk"
  define C where "C = cwd fs"
  define W where "W = C @ [t]"
  define tg where "tg = (if is_dir fs (W @ [nm]) then W @ [nm, nm] else W @ [nm])"
  have rtb: "\<And>fsx. resolve fsx (joinpath (Path False [t]) (name_of bnk)) = cwd fsx @ [t, nm]"
    by (simp add: resolve_def joinpath_def nm_def)
  have "(if is_dir fs (resolve fs (joinpath (Path False [t]) (name_of bnk)))
         then resolve fs (joinpath (Path False [t]) (name_of bnk)) @ [name_of bnk]
         else resolve fs (joinpath (Path False [t]) (name_of bnk))) = tg"
    unfolding rtb by (simp add: tg_def W_def C_def nm_def)
  with copy2_cases [OF c] obtain n where fs1: "fs1 = put tg (File n) fs"
    by auto
  have tgW: "prefix W tg" and tgne: "tg \<noteq> []" and tglen: "length tg > length C"
    by (simp_all add: tg_def W_def)
  have f1: "cwd fs1 = C" "locked fs1 = locked fs"
    by (simp_all add: fs1 put_fields C_def)
  have f2: "\<And>q. \<not> prefix W q \<Longrightarrow> lookup fs1 q = lookup fs q"
    using tgW by (auto simp: fs1 lookup_put lookup_root)
  have f3: "(\<forall>q. lookup fs (C @ [t, t] @ q) = None) \<Longrightarrow> lookup fs1 (W @ [t, nm]) = None"
  proof -
    assume I: "\<forall>q. lookup fs (C @ [t, t] @ q) = None"
    from I [rule_format, of "[]"] have nd: "\<not> is_dir fs (W @ [t])"
      by (simp add: is_dir_def W_def)
    from I [rule_format, of "[nm]"] have nn: "lookup fs (W @ [t, nm]) = None"
      by (simp add: W_def)
    have "tg \<noteq> W @ [t, nm]"
      using nd by (auto simp: tg_def)
    then show ?thesis
      using nn by (simp add: fs1 lookup_put)
  qed
  have f4: "is_dir fs C \<Longrightarrow> is_dir fs1 C"
    using tglen by (auto simp: fs1 is_dir_def lookup_put)
  have f5: "is_dir fs W \<Longrightarrow> is_dir fs1 W"
    by (auto simp: fs1 is_dir_def lookup_put tg_def)
  show ?thesis
  proof (cases "chdir fs1 (Path False [t])")
    case (Inl e)
    from extract_bnk_chdir_fault [OF c this, of env bp v] ex have "r = Raise e" "fs' = fs1"
      by simp_all
    then show ?thesis
      using f1 f2 f5 by (simp add: C_def W_def)
  next
    case d: (Inr fs2)
    from chdir_cases [OF d] have fs2: "fs2 = fs1\<lparr>cwd := W\<rparr>"
      by (simp add: resolve_rel f1 W_def)
    have g1: "cwd fs2 = W" "locked fs2 = locked fs"
      by (simp_all add: fs2 f1)
    have g2: "\<And>q. lookup fs2 q = lookup fs1 q"
      by (simp add: fs2 lookup_cwd_update)
    obtain success fs3 out1 where
      rc: "run_command env (Extract_cmd bp (name_of bnk)) v fs2 = (success, fs3, out1)"
      by (metis prod.collapse)
    from run_command_fields [OF rc] have h1: "cwd fs3 = W" "locked fs3 = locked fs"
      by (simp_all add: g1)
    have h2: "\<And>q. length q \<noteq> Suc (length W) \<or> \<not> prefix W q \<Longrightarrow> lookup fs3 q = lookup fs2 q"
      using run_command_extract_lookup [OF rc] by (simp add: g1)
    have h3: "\<And>q. is_dir fs3 q = is_dir fs2 q"
      by (rule run_command_is_dir [OF rc])
    have h2': "\<And>q. \<not> prefix W q \<Longrightarrow> lookup fs3 q = lookup fs q"
      using h2 g2 f2 by simp
    have rtb3: "resolve fs3 (joinpath (Path False [t]) (name_of bnk)) = W @ [t, nm]"
      by (simp add: rtb h1)
    have h4: "(\<forall>q. lookup fs (C @ [t, t] @ q) = None) \<Longrightarrow>
        \<not> path_exists fs3 (joinpath (Path False [t]) (name_of bnk))"
      using f3 h2 [of "W @ [t, nm]"] g2 by (simp add: path_exists_def rtb3)
    have h5: "is_dir fs C \<Longrightarrow> is_dir fs3 C"
      using f4 h3 by (simp add: is_dir_def g2)
    have h6: "is_dir fs W \<Longrightarrow> is_dir fs3 W"
      using f5 h3 by (simp add: is_dir_def g2)
    show ?thesis
    proof (cases "if path_exists fs3 (joinpath (Path False [t]) (name_of bnk))
                  then unlink fs3 (joinpath (Path False [t]) (name_of bnk)) else Inr fs3")
      case (Inl e)
      from extract_bnk_unlink_fault [OF c d rc this] ex have r: "r = Raise e" "fs' = fs3"
        by simp_all
      from Inl have "path_exists fs3 (joinpath (Path False [t]) (name_of bnk))"
        by (simp split: if_splits)
      with h4 have "\<not> (\<forall>q. lookup fs (C @ [t, t] @ q) = None)"
        by blast
      then show ?thesis
        using r h1 h2' h6 by (auto simp: C_def W_def)
    next
      case u: (Inr fs4)
      have fs4: "fs4 = fs3 \<or> fs4 = remove_entry (W @ [t, nm]) fs3"
        using u unlink_cases [of fs3 "joinpath (Path False [t]) (name_of bnk)" fs4]
        by (auto simp: rtb3 split: if_splits)
      have k1: "cwd fs4 = W" "locked fs4 = locked fs"
        using fs4 h1 by (auto simp: remove_entry_fields)
      have k2: "\<And>q. \<not> prefix W q \<Longrightarrow> lookup fs4 q = lookup fs q"
        using fs4 h2' by (auto simp: lookup_remove_entry)
      have k3: "is_dir fs C \<Longrightarrow> is_dir fs4 C"
        using fs4 h5 by (auto simp: is_dir_def lookup_remove_entry W_def)
      have k4: "is_dir fs W \<Longrightarrow> is_dir fs4 W"
        using fs4 h6 by (auto simp: is_dir_def lookup_remove_entry)
      show ?thesis
      proof (cases "chdir fs4 (Path True (cwd fs1))")
        case (Inl e)
        from extract_bnk_chdir_back_fault [OF c d rc u this] ex have r: "r = Raise e" "fs' = fs4"
          by simp_all
        from chdir_fails [OF Inl] have "\<not> is_dir fs4 C"
          by (simp add: resolve_abs f1)
        with k3 have "\<not> is_dir fs C" by blast
        then show ?thesis
          using r k1 k2 k4 by (auto simp: C_def W_def)
      next
        case (Inr fs5)
        from extract_bnk_returns [OF c d rc u this] ex have r: "r = Ret success" "fs' = fs5"
          by simp_all
        from chdir_cases [OF Inr] have fs5: "fs5 = fs4\<lparr>cwd := C\<rparr>"
          by (simp add: resolve_abs f1)
        have k5: "is_dir fs W \<Longrightarrow> is_dir fs5 W"
          using k4 by (simp add: fs5 is_dir_def lookup_cwd_update)
        show ?thesis
          using r k1 k2 k5 by (simp add: fs5 lookup_cwd_update C_def W_def)
      qed
    qed
  qed
qed

section \<open>Properties of the release of the workspace\<close>

lemma unlink_cwd: "cwd (case unlink fs p of Inl e \<Rightarrow> fs | Inr fs2 \<Rightarrow> fs2) = cwd fs"
proof (cases "unlink fs p")
  case (Inl e)
  then show ?thesis by simp
next
  case (Inr fs2)
  from unlink_cases [OF Inr] show ?thesis by (simp add: Inr remove_entry_fields)
qed

lemma convert_body_cwd:
  "cwd (fst (convert_body env od ext vg v ds m rd n c wem s)) = cwd (fst s)"
proof -
  obtain fs sz log out where s: "s = (fs, sz, log, out)"
    by (cases s) auto
  define output_file where "output_file = joinpath od (stem wem @ ''.'' @ ext)"
  obtain ok fs1 out2 where r:
    "run_command env (Convert_cmd vg output_file wem) v fs = (ok, fs1, out2)"
    by (metis prod.collapse)
  obtain d rsn sz' where sd:
    "should_delete_file output_file (get_file_size fs1 output_file) ds m rd sz = ((d, rsn), sz')"
    by (metis prod.collapse)
  have c1: "cwd fs1 = cwd fs"
    using run_command_fields [OF r] by simp
  have "fst (convert_body env od ext vg v ds m rd n c wem s) =
      (if ok \<and> d then (case unlink fs1 output_file of Inl e \<Rightarrow> fs1 | Inr fs2 \<Rightarrow> fs2) else fs1)"
    unfolding s convert_body_def Let_def output_file_def [symmetric]
    by (simp add: r sd)
  then show ?thesis
    by (simp add: s c1 unlink_cwd)
qed

lemma for_each_convert_cwd:
  "cwd (fst (for_each (convert_body env od ext vg v ds m rd n) c xs s)) = cwd (fst s)"
proof (induction xs arbitrary: c s)
  case Nil
  show ?case by simp
next
  case (Cons x xs)
  show ?case by (simp add: Cons.IH convert_body_cwd)
qed

lemma convert_wem_files_cwd:
  "cwd (fst (snd (convert_wem_files env t od ext vg v ds m rd fs))) = cwd fs"
  by (simp add: convert_wem_files_unfold for_each_convert_cwd)

lemma convert_wem_files_no_fragments:
  "glob fs t ''.wem'' = [] \<Longrightarrow> convert_wem_files env t od ext vg v ds m rd fs = (False, fs, [], [])"
  by (simp add: convert_wem_files_unfold)

lemma move_cwd: "cwd (snd (move fs a b)) = cwd fs"
  by (simp add: move_def Let_def put_fields remove_entry_fields split: option.splits node.splits)

lemma fold_move_cwd:
  "cwd (fold (\<lambda>wem_file fs'. snd (move fs' wem_file od)) xs fs) = cwd fs"
  by (induction xs arbitrary: fs) (simp_all add: move_cwd)

lemma rmtree_cwd: "rmtree fs p = Inr fs' \<Longrightarrow> cwd fs' = cwd fs"
  using rmtree_cases [of fs p fs'] by (auto simp: remove_tree_fields)

lemma cleanup_temp_dir_cwd:
  "cwd (fst (snd (cleanup_temp_dir t od cw v fs))) = cwd fs"
proof (cases cw)
  case True
  show ?thesis
  proof (cases "rmtree fs t")
    case (Inl e)
    then show ?thesis by (simp add: cleanup_temp_dir_def True Let_def)
  next
    case (Inr fs1)
    then show ?thesis by (simp add: cleanup_temp_dir_def True Let_def rmtree_cwd [OF Inr])
  qed
next
  case False
  define fs1 where "fs1 = fold (\<lambda>wem_file fs'. snd (move fs' wem_file od)) (glob fs t ''.wem'') fs"
  have c: "cwd fs1 = cwd fs"
    by (simp add: fs1_def fold_move_cwd)
  show ?thesis
  proof (cases "rmtree fs1 t")
    case (Inl e)
    then show ?thesis
      using c by (simp add: cleanup_temp_dir_def False Let_def fs1_def [symmetric])
  next
    case (Inr fs2)
    then show ?thesis
      using c rmtree_cwd [OF Inr]
      by (simp add: cleanup_temp_dir_def False Let_def fs1_def [symmetric])
  qed
qed

lemma final_cleanup_cwd: "cwd (final_cleanup t fs) = cwd fs"
proof (cases "rmtree fs t")
  case (Inl e)
  then show ?thesis by (simp add: final_cleanup_def)
next
  case (Inr fs1)
  then show ?thesis by (simp add: final_cleanup_def rmtree_cwd [OF Inr])
qed

lemma final_cleanup_post:
  assumes "resolve fs t \<noteq> []"
  shows "\<not> path_exists (final_cleanup t fs) t \<or> (\<exists>e. rmtree (final_cleanup t fs) t = Inl e)"
proof (cases "path_exists fs t")
  case False
  then show ?thesis by (simp add: final_cleanup_def)
next
  case True
  show ?thesis
  proof (cases "rmtree fs t")
    case (Inl e)
    then show ?thesis by (simp add: final_cleanup_def True)
  next
    case (Inr fs1)
    from rmtree_cases [OF Inr] have fs1: "fs1 = remove_tree (resolve fs t) fs"
      by simp
    have "resolve fs1 t = resolve fs t"
      by (simp add: resolve_def fs1 remove_tree_fields)
    then have "\<not> path_exists fs1 t"
      using assms by (simp add: path_exists_def fs1 lookup_remove_tree)
    then show ?thesis
      by (simp add: final_cleanup_def True Inr)
  qed
qed

lemma final_cleanup_frame:
  "\<not> prefix (resolve fs t) q \<Longrightarrow> lookup (final_cleanup t fs) q = lookup fs q"
proof (cases "rmtree fs t")
  case (Inl e)
  then show ?thesis by (simp add: final_cleanup_def)
next
  case (Inr fs1)
  assume "\<not> prefix (resolve fs t) q"
  with rmtree_cases [OF Inr] show ?thesis
    by (simp add: final_cleanup_def Inr lookup_remove_tree)
qed

section \<open>Properties of the per-archive step\<close>

lemma final_cleanup_gone:
  assumes d: "is_dir fs (resolve fs t)" and ne: "resolve fs t \<noteq> []"
  shows "(\<forall>q. prefix (resolve fs t) q \<longrightarrow> lookup (final_cleanup t fs) q = None)
       \<or> (path_exists (final_cleanup t fs) t \<and> (\<exists>e. rmtree (final_cleanup t fs) t = Inl e))"
proof -
  from d have pe: "path_exists fs t"
    by (simp add: path_exists_def is_dir_def)
  show ?thesis
  proof (cases "rmtree fs t")
    case (Inl e)
    then have "final_cleanup t fs = fs"
      using pe by (simp add: final_cleanup_def)
    with Inl pe show ?thesis by auto
  next
    case (Inr fs1)
    then have f: "final_cleanup t fs = remove_tree (resolve fs t) fs"
      using pe rmtree_cases [OF Inr] by (simp add: final_cleanup_def)
    have "lookup (final_cleanup t fs) q = None" if "prefix (resolve fs t) q" for q
    proof -
      from that ne have "q \<noteq> []" by auto
      with that show ?thesis
        by (simp add: f lookup_remove_tree)
    qed
    then show ?thesis by blast
  qed
qed

lemma wf_below_missing:
  assumes wf: "wf_fsys fs" and none: "lookup fs p = None"
  shows "lookup fs (p @ q) = None"
proof (induction q rule: rev_induct)
  case Nil
  show ?case using none by simp
next
  case (snoc x q)
  show ?case
  proof (rule ccontr)
    assume "lookup fs (p @ q @ [x]) \<noteq> None"
    then obtain n where "map_of (entries fs) (p @ q @ [x]) = Some n"
      by (auto simp: lookup_def)
    then have "(p @ q @ [x], n) \<in> set (entries fs)"
      by (rule map_of_SomeD)
    with wf have "is_dir fs (butlast (p @ q @ [x]))"
      by (auto simp: wf_fsys_def list_all_iff)
    then have "lookup fs (p @ q) = Some Dir"
      by (simp add: is_dir_def butlast_append)
    with snoc show False by simp
  qed
qed

lemma mkdir_new:
  assumes "mkdir fs p False = Inr fs'"
  shows "fs' = put (resolve fs p) Dir fs \<and> lookup fs (resolve fs p) = None
         \<and> is_dir fs (butlast (resolve fs p))"
  using assms
  by (auto simp: mkdir_def Let_def split: option.splits node.splits if_splits)

lemma make_dirs_ret:
  assumes "make_dirs t od fs = (Ret u, fs3)"
  shows "\<exists>fs1 fs2. (if path_exists fs t then rmtree fs t else Inr fs) = Inr fs1
           \<and> mkdir fs1 t False = Inr fs2 \<and> mkdir fs2 od True = Inr fs3"
proof (cases "if path_exists fs t then rmtree fs t else Inr fs")
  case (Inl e)
  then show ?thesis using assms by (simp add: make_dirs_def)
next
  case a: (Inr fs1)
  show ?thesis
  proof (cases "mkdir fs1 t False")
    case (Inl e)
    then show ?thesis using assms a by (simp add: make_dirs_def)
  next
    case b: (Inr fs2)
    show ?thesis
    proof (cases "mkdir fs2 od True")
      case (Inl e)
      then show ?thesis using assms a b by (simp add: make_dirs_def)
    next
      case (Inr fs3')
      then show ?thesis using assms a b by (simp add: make_dirs_def)
    qed
  qed
qed

lemma make_dirs_props:
  assumes md: "make_dirs (Path False [t]) od fs = (Ret u, fs3)"
  shows "cwd fs3 = cwd fs \<and> locked fs3 = locked fs
     \<and> is_dir fs3 (cwd fs @ [t]) \<and> is_dir fs3 (resolve fs od) \<and> is_dir fs3 (cwd fs)
     \<and> (\<forall>q. \<not> prefix (cwd fs @ [t]) q \<and> q \<noteq> resolve fs od \<longrightarrow> lookup fs3 q = lookup fs q)
     \<and> (wf_fsys fs \<longrightarrow> last (resolve fs od) \<noteq> t \<longrightarrow>
          (\<forall>q. lookup fs3 (cwd fs @ [t, t] @ q) = None))"
proof -
  define C where "C = cwd fs"
  define W where "W = C @ [t]"
  define Od where "Od = resolve fs od"
  from make_dirs_ret [OF md] obtain fs1 fs2 where
    a: "(if path_exists fs (Path False [t]) then rmtree fs (Path False [t]) else Inr fs) = Inr fs1"
    and b: "mkdir fs1 (Path False [t]) False = Inr fs2"
    and c: "mkdir fs2 od True = Inr fs3"
    by blast
  have rW: "resolve fs (Path False [t]) = W"
    by (simp add: resolve_rel W_def C_def)
  have fs1: "(fs1 = fs \<and> lookup fs W = None) \<or> fs1 = remove_tree W fs"
  proof (cases "path_exists fs (Path False [t])")
    case True
    with a have "rmtree fs (Path False [t]) = Inr fs1" by simp
    from rmtree_cases [OF this] show ?thesis by (simp add: rW)
  next
    case False
    with a show ?thesis by (simp add: path_exists_def rW)
  qed
  have a0: "cwd fs1 = C" "locked fs1 = locked fs"
    using fs1 by (auto simp: C_def remove_tree_fields)
  have a1: "\<And>q. \<not> prefix W q \<Longrightarrow> lookup fs1 q = lookup fs q"
    using fs1 by (auto simp: lookup_remove_tree)
  have a2: "wf_fsys fs \<Longrightarrow> lookup fs1 (W @ q) = None" for q
    using fs1 wf_below_missing [of fs W q] by (auto simp: lookup_remove_tree W_def)
  have rW1: "resolve fs1 (Path False [t]) = W"
    by (simp add: resolve_rel W_def a0)
  from mkdir_new [OF b] have fs2: "fs2 = put W Dir fs1" and dC1: "is_dir fs1 C"
    by (simp_all add: rW1) (simp add: W_def)
  have b0: "cwd fs2 = C" "locked fs2 = locked fs"
    by (simp_all add: fs2 put_fields a0)
  have b1: "\<And>q. q \<noteq> W \<Longrightarrow> lookup fs2 q = lookup fs1 q"
    by (simp add: fs2 lookup_put lookup_root)
  have bW: "is_dir fs2 W"
    by (simp add: fs2 is_dir_def lookup_put W_def)
  have bC: "is_dir fs2 C"
    using dC1 by (simp add: fs2 is_dir_def lookup_put)
  have b2: "wf_fsys fs \<Longrightarrow> q \<noteq> [] \<Longrightarrow> lookup fs2 (W @ q) = None" for q
    using a2 [of q] by (simp add: b1)
  have rOd: "resolve fs2 od = Od"
    by (simp add: resolve_def Od_def b0 C_def)
  from mkdir_cases [OF c] have fs3:
    "(fs3 = fs2 \<and> is_dir fs2 Od) \<or>
     (fs3 = put Od Dir fs2 \<and> lookup fs2 Od = None \<and> is_dir fs2 (butlast Od))"
    by (simp add: rOd)
  have c0: "cwd fs3 = C" "locked fs3 = locked fs"
    using fs3 b0 by (auto simp: put_fields)
  have c1: "\<And>q. q \<noteq> Od \<Longrightarrow> lookup fs3 q = lookup fs2 q"
    using fs3 by (auto simp: lookup_put lookup_root)
  have cd: "\<And>q. is_dir fs2 q \<Longrightarrow> is_dir fs3 q"
    using fs3 by (auto simp: is_dir_def lookup_put)
  have cOd: "is_dir fs3 Od"
    using fs3 by (auto simp: is_dir_def lookup_put lookup_root)
  have frame: "\<And>q. \<not> prefix W q \<and> q \<noteq> Od \<Longrightarrow> lookup fs3 q = lookup fs q"
  proof -
    fix q assume q: "\<not> prefix W q \<and> q \<noteq> Od"
    then have "q \<noteq> W" by auto
    with q show "lookup fs3 q = lookup fs q"
      by (simp add: c1 b1 a1)
  qed
  have fresh: "lookup fs3 (W @ t # q) = None" if wf: "wf_fsys fs" and lt: "last Od \<noteq> t" for q
  proof -
    have n2: "lookup fs2 (W @ t # q) = None"
      using b2 [OF wf, of "t # q"] by simp
    have "Od \<noteq> W @ t # q \<or> fs3 = fs2"
    proof (rule ccontr)
      assume "\<not> (Od \<noteq> W @ t # q \<or> fs3 = fs2)"
      then have e: "Od = W @ t # q" and "fs3 \<noteq> fs2" by auto
      with fs3 have pd: "is_dir fs2 (butlast Od)" by auto
      show False
      proof (cases "q = []")
        case True
        with e lt show False by simp
      next
        case False
        then have "butlast Od = W @ t # butlast q"
          by (simp add: e butlast_append)
        with pd b2 [OF wf, of "t # butlast q"] show False
          by (simp add: is_dir_def)
      qed
    qed
    then show ?thesis
      using n2 c1 [of "W @ t # q"] by auto
  qed
  show ?thesis
    using c0 cd [OF bW] cd [OF bC] cOd frame fresh
    by (simp add: C_def [symmetric] W_def [symmetric] Od_def [symmetric])
       (simp add: W_def)
qed

lemma process_body_raise:
  "extract_bnk env bnk t bp v fs = (Raise e, fs1, o1) \<Longrightarrow>
   process_body env bnk t od ext bp vp v cw ds m rd fs = (Raise e, fs1, o1)"
  by (simp add: process_body_def)

lemma process_body_extract_false:
  "extract_bnk env bnk t bp v fs = (Ret False, fs1, o1) \<Longrightarrow>
   process_body env bnk t od ext bp vp v cw ds m rd fs
   = (Ret False, fs1, o1 @ [Extract_failed_msg (name_of bnk)])"
  by (simp add: process_body_def)

lemma process_body_no_fragments:
  "extract_bnk env bnk t bp v fs = (Ret True, fs1, o1) \<Longrightarrow> glob fs1 t ''.wem'' = [] \<Longrightarrow>
   process_body env bnk t od ext bp vp v cw ds m rd fs
   = (Ret False, fs1, o1 @ [No_wem_msg (name_of bnk)])"
  by (simp add: process_body_def convert_wem_files_no_fragments)

lemma process_body_converted:
  "extract_bnk env bnk t bp v fs = (Ret True, fs1, o1) \<Longrightarrow>
   convert_wem_files env t od ext vp v ds m rd fs1 = (True, fs2, oc, o2) \<Longrightarrow>
   fst (process_body env bnk t od ext bp vp v cw ds m rd fs)
     = (case fst (cleanup_temp_dir t od cw v fs2) of Raise e \<Rightarrow> Raise e | Ret u \<Rightarrow> Ret True)
   \<and> fst (snd (process_body env bnk t od ext bp vp v cw ds m rd fs))
     = fst (snd (cleanup_temp_dir t od cw v fs2))"
  by (simp add: process_body_def split: prod.splits res.splits)

lemma process_body_cwd:
  assumes ex: "extract_bnk env bnk t bp v fs = (r, fs1, o1)" and c: "cwd fs1 = cwd fs"
  shows "cwd (fst (snd (process_body env bnk t od ext bp vp v cw ds m rd fs))) = cwd fs"
proof (cases r)
  case (Raise e)
  with ex process_body_raise [of env bnk t bp v fs e fs1 o1] c show ?thesis by simp
next
  case (Ret ok)
  show ?thesis
  proof (cases ok)
    case False
    with ex Ret process_body_extract_false [of env bnk t bp v fs fs1 o1] c show ?thesis by simp
  next
    case True
    obtain cok fs2 oc o2 where cv: "convert_wem_files env t od ext vp v ds m rd fs1 = (cok, fs2, oc, o2)"
      by (metis prod.collapse)
    have c2: "cwd fs2 = cwd fs"
      using convert_wem_files_cwd [of env t od ext vp v ds m rd fs1] cv c by simp
    show ?thesis
    proof (cases cok)
      case False
      then have "glob fs1 t ''.wem'' = []"
        using cv by (simp add: convert_wem_files_unfold split: if_splits)
      with ex Ret True process_body_no_fragments [of env bnk t bp v fs fs1 o1] c
      show ?thesis by simp
    next
      case t2: True
      from process_body_converted [of env bnk t bp v fs fs1 o1 od ext vp ds m rd fs2 oc o2]
        ex Ret True cv t2
      have "fst (snd (process_body env bnk t od ext bp vp v cw ds m rd fs))
         = fst (snd (cleanup_temp_dir t od cw v fs2))"
        by simp
      then show ?thesis
        by (simp add: cleanup_temp_dir_cwd c2)
    qed
  qed
qed

lemma process_body_failure:
  assumes ex: "extract_bnk env bnk t bp v fs = (r, fs1, o1)"
    and fail: "r \<noteq> Ret True \<or> glob fs1 t ''.wem'' = []"
  shows "fst (process_body env bnk t od ext bp vp v cw ds m rd fs) \<noteq> Ret True
       \<and> fst (snd (process_body env bnk t od ext bp vp v cw ds m rd fs)) = fs1"
proof (cases r)
  case (Raise e)
  with ex process_body_raise [of env bnk t bp v fs e fs1 o1] show ?thesis by simp
next
  case (Ret ok)
  show ?thesis
  proof (cases ok)
    case False
    with ex Ret process_body_extract_false [of env bnk t bp v fs fs1 o1] show ?thesis by simp
  next
    case True
    with fail Ret have "glob fs1 t ''.wem'' = []" by simp
    with ex Ret True process_body_no_fragments [of env bnk t bp v fs fs1 o1]
    show ?thesis by simp
  qed
qed

lemma process_bnk_file_raise:
  "make_dirs (temp_dir_of bnk) (joinpath obase (stem bnk)) fs = (Raise e, fs1) \<Longrightarrow>
   fst (process_bnk_file env bnk obase ext bp vp v cw ds m rd fs) = Raise e"
  by (simp add: process_bnk_file_def Let_def)

lemma process_bnk_file_ret:
  "make_dirs (temp_dir_of bnk) (joinpath obase (stem bnk)) fs = (Ret u, fs3) \<Longrightarrow>
   fst (process_bnk_file env bnk obase ext bp vp v cw ds m rd fs)
     = Ret (fst (process_body env bnk (temp_dir_of bnk) (joinpath obase (stem bnk)) ext bp vp v
                   cw ds m rd fs3) = Ret True)
   \<and> fst (snd (process_bnk_file env bnk obase ext bp vp v cw ds m rd fs))
     = final_cleanup (temp_dir_of bnk)
         (fst (snd (process_body env bnk (temp_dir_of bnk) (joinpath obase (stem bnk)) ext bp vp v
                   cw ds m rd fs3)))"
  by (simp add: process_bnk_file_def Let_def split: prod.splits res.splits)

lemma process_bnk_file_made_dirs:
  assumes "process_bnk_file env bnk obase ext bp vp v cw ds m rd fs = (Ret ok, fs', out)"
  shows "\<exists>u fs3. make_dirs (temp_dir_of bnk) (joinpath obase (stem bnk)) fs = (Ret u, fs3)"
proof (cases "fst (make_dirs (temp_dir_of bnk) (joinpath obase (stem bnk)) fs)")
  case (Ret u)
  then show ?thesis by (metis prod.collapse)
next
  case (Raise e)
  then have "make_dirs (temp_dir_of bnk) (joinpath obase (stem bnk)) fs
      = (Raise e, snd (make_dirs (temp_dir_of bnk) (joinpath obase (stem bnk)) fs))"
    by (metis prod.collapse)
  from process_bnk_file_raise [OF this, of env ext bp vp v cw ds m rd] assms
  show ?thesis by simp
qed

lemma stem_not_temp: "last (resolve fs (joinpath obase (stem bnk))) \<noteq> ''temp_'' @ stem bnk"
  by (simp add: resolve_joinpath)

lemma process_bnk_file_workspace:
  assumes wf: "wf_fsys fs"
    and md: "make_dirs (temp_dir_of bnk) (joinpath obase (stem bnk)) fs = (Ret u, fs3)"
  shows "cwd (fst (snd (process_bnk_file env bnk obase ext bp vp v cw ds m rd fs))) = cwd fs
     \<and> (\<not> path_exists (fst (snd (process_bnk_file env bnk obase ext bp vp v cw ds m rd fs)))
            (temp_dir_of bnk)
        \<or> (\<exists>e. rmtree (fst (snd (process_bnk_file env bnk obase ext bp vp v cw ds m rd fs)))
                 (temp_dir_of bnk) = Inl e))"
proof -
  define t where "t = ''temp_'' @ stem bnk"
  define od where "od = joinpath obase (stem bnk)"
  have td: "temp_dir_of bnk = Path False [t]"
    by (simp add: temp_dir_of_def t_def)
  note mp = make_dirs_props [OF md [unfolded td]]
  from mp have c3: "cwd fs3 = cwd fs" and d3: "is_dir fs3 (cwd fs3)"
    by simp_all
  from mp wf stem_not_temp [of fs obase bnk]
  have i3: "\<forall>q. lookup fs3 (cwd fs3 @ [t, t] @ q) = None"
    by (simp add: t_def)
  obtain r fs4 o1 where ex: "extract_bnk env bnk (Path False [t]) bp v fs3 = (r, fs4, o1)"
    by (metis prod.collapse)
  from extract_bnk_props [OF ex] i3 d3 have c4: "cwd fs4 = cwd fs3"
    by blast
  define fs5 where "fs5 = fst (snd (process_body env bnk (Path False [t]) od ext bp vp v cw ds m rd fs3))"
  have c5: "cwd fs5 = cwd fs"
    unfolding fs5_def using process_body_cwd [OF ex c4] c3 by simp
  have fin: "fst (snd (process_bnk_file env bnk obase ext bp vp v cw ds m rd fs))
      = final_cleanup (Path False [t]) fs5"
    using process_bnk_file_ret [OF md, of env ext bp vp v cw ds m rd]
    by (simp add: td fs5_def od_def)
  have "resolve fs5 (Path False [t]) \<noteq> []"
    by (simp add: resolve_rel)
  from final_cleanup_post [OF this] final_cleanup_cwd [of "Path False [t]" fs5] c5
  show ?thesis
    by (simp add: fin td)
qed

lemma process_bnk_file_failure:
  assumes md: "make_dirs (temp_dir_of bnk) (joinpath obase (stem bnk)) fs = (Ret u, fs3)"
    and ex: "extract_bnk env bnk (temp_dir_of bnk) bp v fs3 = (r, fs4, o1)"
    and fail: "r \<noteq> Ret True \<or> glob fs4 (temp_dir_of bnk) ''.wem'' = []"
  shows "fst (process_bnk_file env bnk obase ext bp vp v cw ds m rd fs) = Ret False
     \<and> fst (snd (process_bnk_file env bnk obase ext bp vp v cw ds m rd fs))
         = final_cleanup (temp_dir_of bnk) fs4
     \<and> (\<forall>q. \<not> prefix (cwd fs @ [''temp_'' @ stem bnk]) q
              \<and> q \<noteq> resolve fs (joinpath obase (stem bnk))
            \<longrightarrow> lookup (fst (snd (process_bnk_file env bnk obase ext bp vp v cw ds m rd fs))) q
                = lookup fs q)"
proof -
  define t where "t = ''temp_'' @ stem bnk"
  have td: "temp_dir_of bnk = Path False [t]"
    by (simp add: temp_dir_of_def t_def)
  note mp = make_dirs_props [OF md [unfolded td]]
  note ep = extract_bnk_props [OF ex [unfolded td]]
  note pf = process_body_failure [OF ex fail, of "joinpath obase (stem bnk)" ext vp cw ds m rd]
  note pr = process_bnk_file_ret [OF md, of env ext bp vp v cw ds m rd]
  have res: "fst (process_bnk_file env bnk obase ext bp vp v cw ds m rd fs) = Ret False"
    using pr pf by simp
  have st: "fst (snd (process_bnk_file env bnk obase ext bp vp v cw ds m rd fs))
         = final_cleanup (temp_dir_of bnk) fs4"
    using pr pf by simp
  have fr: "lookup (final_cleanup (temp_dir_of bnk) fs4) q = lookup fs q"
    if q: "\<not> prefix (cwd fs @ [t]) q \<and> q \<noteq> resolve fs (joinpath obase (stem bnk))" for q
  proof -
    from ep mp have "cwd fs4 = cwd fs \<or> cwd fs4 = cwd fs @ [t]"
      by simp
    then have "prefix (cwd fs @ [t]) (resolve fs4 (Path False [t]))"
      by (auto simp: resolve_rel)
    with q have "\<not> prefix (resolve fs4 (Path False [t])) q"
      using prefix_order.trans by blast
    then have "lookup (final_cleanup (temp_dir_of bnk) fs4) q = lookup fs4 q"
      by (simp add: final_cleanup_frame td)
    also have "\<dots> = lookup fs3 q"
      using ep mp q by simp
    also have "\<dots> = lookup fs q"
      using mp q by simp
    finally show ?thesis .
  qed
  show ?thesis
    using res st fr by (simp add: t_def)
qed

lemma process_bnk_file_failure_gone:
  assumes wf: "wf_fsys fs"
    and md: "make_dirs (temp_dir_of bnk) (joinpath obase (stem bnk)) fs = (Ret u, fs3)"
    and ex: "extract_bnk env bnk (temp_dir_of bnk) bp v fs3 = (r, fs4, o1)"
    and fail: "r \<noteq> Ret True \<or> glob fs4 (temp_dir_of bnk) ''.wem'' = []"
  shows "(\<forall>q. prefix (cwd fs @ [''temp_'' @ stem bnk]) q
            \<longrightarrow> lookup (fst (snd (process_bnk_file env bnk obase ext bp vp v cw ds m rd fs))) q
                = None)
     \<or> (path_exists (fst (snd (process_bnk_file env bnk obase ext bp vp v cw ds m rd fs)))
            (temp_dir_of bnk)
        \<and> (\<exists>e. rmtree (fst (snd (process_bnk_file env bnk obase ext bp vp v cw ds m rd fs)))
                 (temp_dir_of bnk) = Inl e))"
proof -
  define t where "t = ''temp_'' @ stem bnk"
  have td: "temp_dir_of bnk = Path False [t]"
    by (simp add: temp_dir_of_def t_def)
  note mp = make_dirs_props [OF md [unfolded td]]
  from mp have c3: "cwd fs3 = cwd fs" and d3: "is_dir fs3 (cwd fs3)"
    and w3: "is_dir fs3 (cwd fs3 @ [t])"
    by simp_all
  from mp wf stem_not_temp [of fs obase bnk]
  have i3: "\<forall>q. lookup fs3 (cwd fs3 @ [t, t] @ q) = None"
    by (simp add: t_def)
  note ep = extract_bnk_props [OF ex [unfolded td]]
  from ep i3 d3 have c4: "cwd fs4 = cwd fs3"
    by blast
  from ep w3 have w4: "is_dir fs4 (cwd fs3 @ [t])"
    by blast
  have rs: "resolve fs4 (Path False [t]) = cwd fs @ [t]"
    by (simp add: resolve_rel c4 c3)
  from process_bnk_file_failure [OF md ex fail, of ext vp cw ds m rd]
  have st: "fst (snd (process_bnk_file env bnk obase ext bp vp v cw ds m rd fs))
         = final_cleanup (Path False [t]) fs4"
    by (simp add: td)
  have "is_dir fs4 (resolve fs4 (Path False [t]))" "resolve fs4 (Path False [t]) \<noteq> []"
    using w4 by (simp_all add: rs c3)
  from final_cleanup_gone [OF this, unfolded rs] show ?thesis
    unfolding st td t_def .
qed


section \<open>Runs on the example inputs\<close>

lemma ex_wf: "wf_fsys ex_fs \<and> wf_fsys ex_fs_locked"
  by code_simp

lemma ex_make_dirs:
  "make_dirs (temp_dir_of ex_bnk) (joinpath ex_out (stem ex_bnk)) ex_fs = (Ret (), ex_fs_ready)"
  by code_simp

lemma ex_extract_ok:
  "(case extract_bnk ex_env ex_bnk (temp_dir_of ex_bnk) ''bnkextr.exe'' 1 ex_fs_ready of
      (r, fs', out) \<Rightarrow>
        (r, cwd fs', lookup fs' [''w'', ''temp_a'', ''a.bnk''],
         path_exists fs' (joinpath (temp_dir_of ex_bnk) (name_of ex_bnk))))
   = (Ret True, [''w''], Some (File 100), True)"
  by code_simp

lemma ex_extract_failing:
  "(case extract_bnk ex_env_failing ex_bnk (temp_dir_of ex_bnk) ''bnkextr.exe'' 1 ex_fs_ready of
      (r, fs', out) \<Rightarrow>
        (r, cwd fs', lookup fs' [''w'', ''temp_a'', ''a.bnk''],
         path_exists fs' (joinpath (temp_dir_of ex_bnk) (name_of ex_bnk))))
   = (Ret False, [''w''], Some (File 100), True)"
  by code_simp


lemma ex_run_failing_locked:
  "(case process_bnk_file ex_env_failing ex_bnk ex_out ''wav'' ''bnkextr.exe''
           ''vgmstream-cli.exe'' 1 True False 0 False ex_fs_locked of
      (r, fs', out) \<Rightarrow> (r, path_exists fs' (temp_dir_of ex_bnk)))
   = (Ret False, True)"
  by code_simp

lemma ex_run_silent_locked:
  "(case process_bnk_file ex_env_silent ex_bnk ex_out ''wav'' ''bnkextr.exe''
           ''vgmstream-cli.exe'' 1 False False 0 False ex_fs_locked of
      (r, fs', out) \<Rightarrow>
        (r, lookup fs' [''w'', ''output'', ''a'', ''1.wem''], path_exists fs' (temp_dir_of ex_bnk)))
   = (Ret False, Some (File 10), True)"
  by code_simp

lemma ex_run_silent:
  "(case process_bnk_file ex_env_silent ex_bnk ex_out ''wav'' ''bnkextr.exe''
           ''vgmstream-cli.exe'' 1 False False 0 False ex_fs of
      (r, fs', out) \<Rightarrow> (r, path_exists fs' (temp_dir_of ex_bnk)))
   = (Ret True, False)"
  by code_simp


lemma ex_paths:
  "cwd ex_fs @ [''temp_'' @ stem ex_bnk] = [''w'', ''temp_a'']"
  "resolve ex_fs (joinpath ex_out (stem ex_bnk)) = [''w'', ''output'', ''a'']"
  by code_simp+

lemma ex_run_partial:
  "(case process_bnk_file ex_env_partial ex_bnk ex_out ''wav'' ''bnkextr.exe''
           ''vgmstream-cli.exe'' 1 False False 0 False ex_fs of
      (r, fs', out) \<Rightarrow> (r, path_exists fs' (temp_dir_of ex_bnk)))
   = (Ret False, False)"
  by code_simp

lemma ex_extract_partial:
  "(case extract_bnk ex_env_partial ex_bnk (temp_dir_of ex_bnk) ''bnkextr.exe'' 1 ex_fs_ready of
      (r, fs', out) \<Rightarrow> (r, lookup fs' [''w'', ''temp_a'', ''1.wem'']))
   = (Ret False, Some (File 10))"
  by code_simp


section \<open>The workspace, the extraction step and the failure paths\<close>

lemma ex_no_copy_before:
  "lookup ex_fs_ready [''w'', ''temp_a'', ''a.bnk''] = None
   \<and> cwd ex_fs_ready = [''w'']
   \<and> lookup ex_fs_locked [''w'', ''output'', ''a'', ''1.wem''] = None
   \<and> lookup ex_fs [''w'', ''output'', ''a'', ''1.wem''] = None"
  by code_simp


text \<open>
  C4. The workspace can survive the step: when its removal fails, the \<^verbatim>\<open>finally\<close> clause
  swallows the failure and the step returns with the workspace still on disk. What holds:
  from a well-formed file system, when the step returns, the working directory is the one
  it started from and the workspace either no longer exists or cannot be removed.
\<close>

theorem workspace_removed_unless_removal_fails:
  assumes wf: "wf_fsys fs"
    and run: "process_bnk_file env bnk obase ext bp vp v cw ds m rd fs = (Ret ok, fs', out)"
  shows "cwd fs' = cwd fs
     \<and> (\<not> path_exists fs' (temp_dir_of bnk) \<or> (\<exists>e. rmtree fs' (temp_dir_of bnk) = Inl e))"
proof -
  from process_bnk_file_made_dirs [OF run] obtain u fs3 where
    md: "make_dirs (temp_dir_of bnk) (joinpath obase (stem bnk)) fs = (Ret u, fs3)"
    by blast
  from process_bnk_file_workspace [OF wf md, of env ext bp vp v cw ds m rd] run
  show ?thesis by simp
qed

theorem workspace_removed_unless_removal_fails_witness:
  "wf_fsys ex_fs
   \<and> fst (process_bnk_file ex_env_silent ex_bnk ex_out ''wav'' ''bnkextr.exe''
           ''vgmstream-cli.exe'' 1 False False 0 False ex_fs) = Ret True
   \<and> cwd (fst (snd (process_bnk_file ex_env_silent ex_bnk ex_out ''wav'' ''bnkextr.exe''
           ''vgmstream-cli.exe'' 1 False False 0 False ex_fs))) = cwd ex_fs
   \<and> \<not> path_exists (fst (snd (process_bnk_file ex_env_silent ex_bnk ex_out ''wav''
           ''bnkextr.exe'' ''vgmstream-cli.exe'' 1 False False 0 False ex_fs))) (temp_dir_of ex_bnk)
   \<and> wf_fsys ex_fs_locked
   \<and> fst (process_bnk_file ex_env_failing ex_bnk ex_out ''wav'' ''bnkextr.exe''
           ''vgmstream-cli.exe'' 1 True False 0 False ex_fs_locked) = Ret False
   \<and> cwd (fst (snd (process_bnk_file ex_env_failing ex_bnk ex_out ''wav'' ''bnkextr.exe''
           ''vgmstream-cli.exe'' 1 True False 0 False ex_fs_locked))) = cwd ex_fs_locked
   \<and> (\<exists>e. rmtree (fst (snd (process_bnk_file ex_env_failing ex_bnk ex_out ''wav''
           ''bnkextr.exe'' ''vgmstream-cli.exe'' 1 True False 0 False ex_fs_locked)))
          (temp_dir_of ex_bnk) = Inl e)"
proof -
  define P where "P = process_bnk_file ex_env_silent ex_bnk ex_out ''wav'' ''bnkextr.exe''
           ''vgmstream-cli.exe'' 1 False False 0 False ex_fs"
  define Q where "Q = process_bnk_file ex_env_failing ex_bnk ex_out ''wav'' ''bnkextr.exe''
           ''vgmstream-cli.exe'' 1 True False 0 False ex_fs_locked"
  have p: "fst P = Ret True" "\<not> path_exists (fst (snd P)) (temp_dir_of ex_bnk)"
    using ex_run_silent unfolding P_def by (simp_all add: case_prod_beta)
  have q: "fst Q = Ret False" "path_exists (fst (snd Q)) (temp_dir_of ex_bnk)"
    using ex_run_failing_locked unfolding Q_def by (simp_all add: case_prod_beta)
  have pe: "process_bnk_file ex_env_silent ex_bnk ex_out ''wav'' ''bnkextr.exe''
           ''vgmstream-cli.exe'' 1 False False 0 False ex_fs = (Ret True, fst (snd P), snd (snd P))"
    using p(1) unfolding P_def by (metis prod.collapse)
  have qe: "process_bnk_file ex_env_failing ex_bnk ex_out ''wav'' ''bnkextr.exe''
           ''vgmstream-cli.exe'' 1 True False 0 False ex_fs_locked
           = (Ret False, fst (snd Q), snd (snd Q))"
    using q(1) unfolding Q_def by (metis prod.collapse)
  from ex_wf have w1: "wf_fsys ex_fs" and w2: "wf_fsys ex_fs_locked"
    by simp_all
  from workspace_removed_unless_removal_fails [OF w1 pe]
  have c1: "cwd (fst (snd P)) = cwd ex_fs"
    by simp
  from workspace_removed_unless_removal_fails [OF w2 qe] q(2)
  have c2: "cwd (fst (snd Q)) = cwd ex_fs_locked"
    and c3: "\<exists>e. rmtree (fst (snd Q)) (temp_dir_of ex_bnk) = Inl e"
    by simp_all
  from w1 w2 p q c1 c2 c3 show ?thesis
    unfolding P_def Q_def by blast
qed

theorem workspace_survives_failed_removal:
  "wf_fsys ex_fs_locked
   \<and> fst (process_bnk_file ex_env_failing ex_bnk ex_out ''wav'' ''bnkextr.exe''
           ''vgmstream-cli.exe'' 1 True False 0 False ex_fs_locked) = Ret False
   \<and> path_exists (fst (snd (process_bnk_file ex_env_failing ex_bnk ex_out ''wav''
           ''bnkextr.exe'' ''vgmstream-cli.exe'' 1 True False 0 False ex_fs_locked)))
        (temp_dir_of ex_bnk)"
  using ex_run_failing_locked ex_wf by (simp add: case_prod_beta)

text \<open>
  C6. \<^verbatim>\<open>extract_bnk\<close> copies the archive into the workspace and restores the working
  directory, but the copy stays: for the archive \<^verbatim>\<open>/w/input/a.bnk\<close> and the fresh workspace
  \<^verbatim>\<open>temp_a\<close>, with an extractor that succeeds and with one that fails, the step returns
  with the working directory \<^verbatim>\<open>/w\<close> again and the file \<^verbatim>\<open>/w/temp_a/a.bnk\<close>, which was not
  there before, still in the workspace.
\<close>

theorem extract_bnk_leaves_copy:
  "lookup ex_fs_ready [''w'', ''temp_a'', ''a.bnk''] = None
   \<and> cwd ex_fs_ready = [''w'']
   \<and> fst (extract_bnk ex_env ex_bnk (temp_dir_of ex_bnk) ''bnkextr.exe'' 1 ex_fs_ready) = Ret True
   \<and> cwd (fst (snd (extract_bnk ex_env ex_bnk (temp_dir_of ex_bnk) ''bnkextr.exe'' 1
        ex_fs_ready))) = [''w'']
   \<and> lookup (fst (snd (extract_bnk ex_env ex_bnk (temp_dir_of ex_bnk) ''bnkextr.exe'' 1
        ex_fs_ready))) [''w'', ''temp_a'', ''a.bnk''] = Some (File 100)
   \<and> path_exists (fst (snd (extract_bnk ex_env ex_bnk (temp_dir_of ex_bnk) ''bnkextr.exe'' 1
        ex_fs_ready))) (joinpath (temp_dir_of ex_bnk) (name_of ex_bnk))
   \<and> fst (extract_bnk ex_env_failing ex_bnk (temp_dir_of ex_bnk) ''bnkextr.exe'' 1 ex_fs_ready)
       = Ret False
   \<and> cwd (fst (snd (extract_bnk ex_env_failing ex_bnk (temp_dir_of ex_bnk) ''bnkextr.exe'' 1
        ex_fs_ready))) = [''w'']
   \<and> lookup (fst (snd (extract_bnk ex_env_failing ex_bnk (temp_dir_of ex_bnk) ''bnkextr.exe'' 1
        ex_fs_ready))) [''w'', ''temp_a'', ''a.bnk''] = Some (File 100)
   \<and> path_exists (fst (snd (extract_bnk ex_env_failing ex_bnk (temp_dir_of ex_bnk)
        ''bnkextr.exe'' 1 ex_fs_ready))) (joinpath (temp_dir_of ex_bnk) (name_of ex_bnk))"
  using ex_no_copy_before ex_extract_ok ex_extract_failing by (simp add: case_prod_beta)



text \<open>
  C9. A fragment can be moved although the step returns false: a fault caught while the
  workspace is released, after the fragments were moved, turns the result into false
  and leaves the moved fragments in the output subdirectory. What holds: when extraction
  fails or raises, or leaves no fragment, the step returns false, nothing outside the
  workspace changes except that the output subdirectory itself exists (so no fragment is
  moved, whatever the retention setting), the working directory is the one the step
  started from, and the workspace with everything in it is gone, unless it is still there
  and cannot be removed.
\<close>

theorem no_move_on_failure:
  assumes wf: "wf_fsys fs"
    and md: "make_dirs (temp_dir_of bnk) (joinpath obase (stem bnk)) fs = (Ret u, fs3)"
    and ex: "extract_bnk env bnk (temp_dir_of bnk) bp v fs3 = (r, fs4, o1)"
    and fail: "r \<noteq> Ret True \<or> glob fs4 (temp_dir_of bnk) ''.wem'' = []"
  shows "fst (process_bnk_file env bnk obase ext bp vp v cw ds m rd fs) = Ret False
     \<and> (\<forall>q. \<not> prefix (cwd fs @ [''temp_'' @ stem bnk]) q
              \<and> q \<noteq> resolve fs (joinpath obase (stem bnk))
            \<longrightarrow> lookup (fst (snd (process_bnk_file env bnk obase ext bp vp v cw ds m rd fs))) q
                = lookup fs q)
     \<and> cwd (fst (snd (process_bnk_file env bnk obase ext bp vp v cw ds m rd fs))) = cwd fs
     \<and> ((\<forall>q. prefix (cwd fs @ [''temp_'' @ stem bnk]) q
            \<longrightarrow> lookup (fst (snd (process_bnk_file env bnk obase ext bp vp v cw ds m rd fs))) q
                = None)
        \<or> (path_exists (fst (snd (process_bnk_file env bnk obase ext bp vp v cw ds m rd fs)))
               (temp_dir_of bnk)
           \<and> (\<exists>e. rmtree (fst (snd (process_bnk_file env bnk obase ext bp vp v cw ds m rd fs)))
                    (temp_dir_of bnk) = Inl e)))"
  using process_bnk_file_failure [OF md ex fail, of ext vp cw ds m rd]
    process_bnk_file_workspace [OF wf md, of env ext bp vp v cw ds m rd]
    process_bnk_file_failure_gone [OF wf md ex fail, of ext vp cw ds m rd]
  by blast

theorem no_move_on_failure_witness:
  "wf_fsys ex_fs
   \<and> make_dirs (temp_dir_of ex_bnk) (joinpath ex_out (stem ex_bnk)) ex_fs = (Ret (), ex_fs_ready)
   \<and> fst (extract_bnk ex_env_partial ex_bnk (temp_dir_of ex_bnk) ''bnkextr.exe'' 1 ex_fs_ready)
       = Ret False
   \<and> lookup (fst (snd (extract_bnk ex_env_partial ex_bnk (temp_dir_of ex_bnk) ''bnkextr.exe'' 1
        ex_fs_ready))) [''w'', ''temp_a'', ''1.wem''] = Some (File 10)
   \<and> fst (process_bnk_file ex_env_partial ex_bnk ex_out ''wav'' ''bnkextr.exe''
           ''vgmstream-cli.exe'' 1 False False 0 False ex_fs) = Ret False
   \<and> lookup (fst (snd (process_bnk_file ex_env_partial ex_bnk ex_out ''wav'' ''bnkextr.exe''
           ''vgmstream-cli.exe'' 1 False False 0 False ex_fs))) [''w'', ''output'', ''a'', ''1.wem'']
       = None
   \<and> cwd (fst (snd (process_bnk_file ex_env_partial ex_bnk ex_out ''wav'' ''bnkextr.exe''
           ''vgmstream-cli.exe'' 1 False False 0 False ex_fs))) = cwd ex_fs
   \<and> \<not> path_exists (fst (snd (process_bnk_file ex_env_partial ex_bnk ex_out ''wav''
           ''bnkextr.exe'' ''vgmstream-cli.exe'' 1 False False 0 False ex_fs))) (temp_dir_of ex_bnk)
   \<and> lookup (fst (snd (process_bnk_file ex_env_partial ex_bnk ex_out ''wav'' ''bnkextr.exe''
           ''vgmstream-cli.exe'' 1 False False 0 False ex_fs))) [''w'', ''temp_a'', ''1.wem'']
       = None"
proof -
  define E where "E = extract_bnk ex_env_partial ex_bnk (temp_dir_of ex_bnk) ''bnkextr.exe'' 1
        ex_fs_ready"
  define P where "P = process_bnk_file ex_env_partial ex_bnk ex_out ''wav'' ''bnkextr.exe''
           ''vgmstream-cli.exe'' 1 False False 0 False ex_fs"
  have e: "fst E = Ret False" "lookup (fst (snd E)) [''w'', ''temp_a'', ''1.wem''] = Some (File 10)"
    using ex_extract_partial unfolding E_def by (simp_all add: case_prod_beta)
  have ee: "extract_bnk ex_env_partial ex_bnk (temp_dir_of ex_bnk) ''bnkextr.exe'' 1 ex_fs_ready
      = (Ret False, fst (snd E), snd (snd E))"
    using e(1) unfolding E_def by (metis prod.collapse)
  have fail: "Ret False \<noteq> Ret True
      \<or> glob (fst (snd E)) (temp_dir_of ex_bnk) ''.wem'' = []"
    by simp
  have gone: "\<not> path_exists (fst (snd P)) (temp_dir_of ex_bnk)"
    using ex_run_partial unfolding P_def by (simp add: case_prod_beta)
  from ex_wf have w: "wf_fsys ex_fs"
    by simp
  note t = no_move_on_failure [OF w ex_make_dirs ee fail, of "''wav''"
      "''vgmstream-cli.exe''" False False 0 False]
  from t have c1: "fst P = Ret False" and c3: "cwd (fst (snd P)) = cwd ex_fs"
    unfolding P_def by blast+
  have q: "\<not> prefix (cwd ex_fs @ [''temp_'' @ stem ex_bnk]) [''w'', ''output'', ''a'', ''1.wem'']
      \<and> [''w'', ''output'', ''a'', ''1.wem''] \<noteq> resolve ex_fs (joinpath ex_out (stem ex_bnk))"
    unfolding ex_paths by simp
  from t q have "lookup (fst (snd P)) [''w'', ''output'', ''a'', ''1.wem'']
      = lookup ex_fs [''w'', ''output'', ''a'', ''1.wem'']"
    unfolding P_def by blast
  then have c2: "lookup (fst (snd P)) [''w'', ''output'', ''a'', ''1.wem''] = None"
    using ex_no_copy_before by simp
  from t gone have "\<forall>q. prefix (cwd ex_fs @ [''temp_'' @ stem ex_bnk]) q
      \<longrightarrow> lookup (fst (snd P)) q = None"
    unfolding P_def by blast
  then have c4: "lookup (fst (snd P)) [''w'', ''temp_a'', ''1.wem''] = None"
    unfolding ex_paths by simp
  from w ex_make_dirs e c1 c2 c3 gone c4 show ?thesis
    unfolding E_def P_def by blast
qed

theorem fragments_moved_on_caught_fault:
  "lookup ex_fs_locked [''w'', ''output'', ''a'', ''1.wem''] = None
   \<and> fst (process_bnk_file ex_env_silent ex_bnk ex_out ''wav'' ''bnkextr.exe''
           ''vgmstream-cli.exe'' 1 False False 0 False ex_fs_locked) = Ret False
   \<and> lookup (fst (snd (process_bnk_file ex_env_silent ex_bnk ex_out ''wav'' ''bnkextr.exe''
           ''vgmstream-cli.exe'' 1 False False 0 False ex_fs_locked)))
        [''w'', ''output'', ''a'', ''1.wem''] = Some (File 10)
   \<and> path_exists (fst (snd (process_bnk_file ex_env_silent ex_bnk ex_out ''wav''
           ''bnkextr.exe'' ''vgmstream-cli.exe'' 1 False False 0 False ex_fs_locked)))
        (temp_dir_of ex_bnk)"
  using ex_no_copy_before ex_run_silent_locked by (simp add: case_prod_beta)

end
